theory Spec2Isabelle
  imports Main "HOL-Library.Char_ord" "HOL-Library.List_Lexorder"
begin

section \<open>The synchronisation engine of wagtail-localize-pontoon\<close>

text \<open>
  A shallow embedding of \<^verbatim>\<open>wagtail_localize_pontoon/sync.py\<close>: the pull
  reconciler \<^verbatim>\<open>_pull\<close>, the translation propagation
  \<^verbatim>\<open>_try_update_resource_translation\<close>, the push reconciler \<^verbatim>\<open>_push\<close> with its
  local function \<^verbatim>\<open>update_po\<close>, and the class \<^verbatim>\<open>SyncManager\<close>.

  Python exceptions are values of the type \<open>error\<close>; a statement sequence is a function
  from the world to a result and the world it leaves behind, so that what was written
  before an exception is still there when the exception is raised, and is taken back only
  where the source says so (\<^verbatim>\<open>transaction.atomic\<close>).
\<close>

subsection \<open>Exceptions\<close>

type_synonym commit_id = string
type_synonym filename = string
type_synonym language = string
type_synonym resource = nat
type_synonym segment = nat
type_synonym revision = nat

datatype error =
    ParentNotTranslatedError
  | UnboundLocalError string
  | RecursionError
  | KeyError filename
  | UnicodeDecodeError
  | IOError string
  | UnrecognizedFileError filename
  | AttributeError string
  | DatabaseError string

subsection \<open>Translation files\<close>

text \<open>
  \<^verbatim>\<open>polib\<close> is a third-party library. A PO file is an ordered collection of entries and
  a metadata map; an entry is identified by its pair of source text and translated text.
  A Python \<^verbatim>\<open>str\<close> is seen through the codec: it is the serialisation of a PO file, or
  it is text that \<^verbatim>\<open>polib.pofile\<close> rejects with \<^verbatim>\<open>IOError\<close> (a syntax error). A
  \<^verbatim>\<open>bytes\<close> value is the UTF-8 encoding of a \<^verbatim>\<open>str\<close>, or it is not valid UTF-8 and
  \<^verbatim>\<open>decode('utf-8')\<close> raises \<^verbatim>\<open>UnicodeDecodeError\<close>.
\<close>

record po_entry =
  msgid :: string
  msgstr :: string

record pofile =
  metadata :: "(string \<times> string) list"
  entries :: "po_entry list"

datatype str = PoText pofile | OtherText string

datatype bytes = Utf8 str | NotUtf8 "nat list"

definition decode_utf8 :: "bytes \<Rightarrow> error + str" where
  "decode_utf8 b = (case b of Utf8 s \<Rightarrow> Inr s | NotUtf8 _ \<Rightarrow> Inl UnicodeDecodeError)"

definition polib_pofile :: "str \<Rightarrow> error + pofile" where
  "polib_pofile s =
     (case s of PoText po \<Rightarrow> Inr po | OtherText t \<Rightarrow> Inl (IOError ''Syntax error in po file''))"

definition po_str :: "pofile \<Rightarrow> str" where
  "po_str po = PoText po"

text \<open>
  \<^verbatim>\<open>set(new_po) - set(old_po)\<close>: the entries of the new file that are not entries of the
  old one, each once. Python leaves the iteration order of a set open; the model takes the
  order of first occurrence in the new file.
\<close>

definition changed_entries :: "pofile \<Rightarrow> pofile \<Rightarrow> po_entry list" where
  "changed_entries new_po old_po =
     filter (\<lambda>e. e \<notin> set (entries old_po)) (remdups (entries new_po))"

subsection \<open>The datastore\<close>

text \<open>
  Modelled from the spec: \<^verbatim>\<open>models.py\<close> is not among the sources. The tables are those of
  the spec's data model: a SyncLog entry has an action, a commit id (the empty string when
  unset) and the time of its creation; a SyncLogResource joins a log entry to a resource
  and, for a pull, a language; a Segment is keyed by its text; a Translation belongs to a
  (segment, language) pair; a submission snapshots a resource at a revision. The content
  management system's own tables (pages, revisions) are the component \<open>cms\<close>, whose type
  is left open.
\<close>

datatype action = ACTION_PULL | ACTION_PUSH

record pontoon_sync_log =
  log_id :: nat
  action :: action
  commit_id :: commit_id
  time :: nat

record pontoon_sync_log_resource =
  slr_log :: nat
  slr_resource :: resource
  slr_language :: "language option"

record segment_translation =
  tr_text :: string
  tr_updated_at :: nat

record pontoon_resource_submission =
  sub_id :: nat
  sub_resource :: resource
  revision_id :: revision
  pushed_at :: "nat option"
  push_log :: "nat option"

record pontoon_resource =
  path :: string
  current_revision_id :: revision

record 'c datastore =
  sync_logs :: "pontoon_sync_log list"
  sync_log_resources :: "pontoon_sync_log_resource list"
  segments :: "string \<rightharpoonup> segment"
  segment_translations :: "segment \<times> language \<rightharpoonup> segment_translation"
  submissions :: "pontoon_resource_submission list"
  resources :: "resource \<rightharpoonup> pontoon_resource"
  cms :: 'c

subsection \<open>The repository\<close>

text \<open>
  Modelled from the spec: \<^verbatim>\<open>git.py\<close> is not among the sources. The repository adapter has
  a head commit, the working tree at the head (the reader's view), and a remote;
  \<^verbatim>\<open>pull()\<close> moves the local head to the remote's, \<^verbatim>\<open>push()\<close> moves the remote's head
  to the local one. Every operation on the repository is recorded in \<open>ops\<close>, oldest first.
  A writer collects the files of the next commit. Reading a path that is not in the tree
  raises \<^verbatim>\<open>KeyError\<close>, the exception \<^verbatim>\<open>update_po\<close> handles.
\<close>

datatype repo_op = OpPull | OpCommit string | OpPush

record repository =
  head_commit_id :: commit_id
  tree :: "filename \<rightharpoonup> bytes"
  remote_head :: commit_id
  remote_tree :: "filename \<rightharpoonup> bytes"
  ops :: "repo_op list"

record repository_writer =
  w_tree :: "filename \<rightharpoonup> bytes"
  w_config :: "(string list \<times> (filename \<times> string) list) option"

definition Repository_pull :: "repository \<Rightarrow> repository" where
  "Repository_pull r =
     r\<lparr>head_commit_id := remote_head r, tree := remote_tree r, ops := ops r @ [OpPull]\<rparr>"

definition Repository_push :: "repository \<Rightarrow> repository" where
  "Repository_push r =
     r\<lparr>remote_head := head_commit_id r, remote_tree := tree r, ops := ops r @ [OpPush]\<rparr>"

definition get_head_commit_id :: "repository \<Rightarrow> commit_id" where
  "get_head_commit_id r = head_commit_id r"

definition read_file :: "(filename \<rightharpoonup> bytes) \<Rightarrow> filename \<Rightarrow> error + bytes" where
  "read_file reader f = (case reader f of None \<Rightarrow> Inl (KeyError f) | Some b \<Rightarrow> Inr b)"

definition write_file :: "filename \<Rightarrow> str \<Rightarrow> repository_writer \<Rightarrow> repository_writer" where
  "write_file f s wr = wr\<lparr>w_tree := (w_tree wr)(f \<mapsto> Utf8 s)\<rparr>"

definition write_config ::
  "string list \<Rightarrow> (filename \<times> string) list \<Rightarrow> repository_writer \<Rightarrow> repository_writer" where
  "write_config tags paths wr = wr\<lparr>w_config := Some (tags, paths)\<rparr>"

subsection \<open>The world and the external collaborators\<close>

datatype log_message =
    InfoSavingTranslatedPage resource language
  | InfoParentMustBeTranslatedFirst resource language
  | InfoPullNoChanges
  | InfoPullImporting filename
  | WarningUnrecognisedSegment string
  | InfoPushCommitting
  | InfoPushNotCommitting
  | InfoPushNoChanges
  | InfoPullingRepository
  | InfoFinished
  | PrintSavingTranslatedPage resource
  | PrintParentMustBeTranslatedFirst
  | PrintPullNoChanges
  | PrintIngestingChanges filename
  | PrintUnrecognisedSegment

text \<open>
  The world: the datastore (the part a transaction can take back), the repository, the
  messages given to the logger (oldest first) and the clock that \<^verbatim>\<open>timezone.now()\<close>
  reads.
\<close>

record 'c world =
  db :: "'c datastore"
  repo :: repository
  messages :: "log_message list"
  clock :: nat

text \<open>
  The functions of the resource catalog, of \<^verbatim>\<open>pofile.py\<close> and of \<^verbatim>\<open>git.py\<close> that the
  source calls are parameters: nothing is assumed of them beyond their types.
\<close>

record 'c env =
  get_by_po_filename :: "'c datastore \<Rightarrow> filename \<Rightarrow> error + (resource \<times> language)"
  find_translatable_submission :: "'c datastore \<Rightarrow> resource \<Rightarrow> language \<Rightarrow> nat option"
  create_or_update_translated_page ::
    "'c datastore \<Rightarrow> nat \<Rightarrow> language \<Rightarrow> (error + (revision \<times> bool)) \<times> 'c datastore"
  child_page_resources :: "'c datastore \<Rightarrow> revision \<Rightarrow> resource list"
  get_changed_files ::
    "repository \<Rightarrow> commit_id option \<Rightarrow> commit_id \<Rightarrow> (filename \<times> bytes \<times> bytes) list"
  active_languages :: "'c datastore \<Rightarrow> language list"
  as_rfc5646_language_tag :: "language \<Rightarrow> string"
  generate_source_pofile :: "'c datastore \<Rightarrow> resource \<Rightarrow> str"
  generate_language_pofile :: "'c datastore \<Rightarrow> resource \<Rightarrow> language \<Rightarrow> str"
  get_po_filename :: "'c datastore \<Rightarrow> resource \<Rightarrow> language option \<Rightarrow> filename"
  get_locale_po_filename_template :: "'c datastore \<Rightarrow> resource \<Rightarrow> string"
  is_managed_file :: "filename \<Rightarrow> bool"
  has_changes :: "repository_writer \<Rightarrow> (filename \<rightharpoonup> bytes) \<Rightarrow> bool"
  new_commit_id :: "repository \<Rightarrow> repository_writer \<Rightarrow> string \<Rightarrow> commit_id"

type_synonym ('a, 'c) prog = "'c world \<Rightarrow> (error + 'a) \<times> 'c world"

definition logger_log :: "log_message \<Rightarrow> 'c world \<Rightarrow> 'c world" where
  "logger_log m w = w\<lparr>messages := messages w @ [m]\<rparr>"

text \<open>Each reading of the clock is later than the one before.\<close>

definition timezone_now :: "'c world \<Rightarrow> nat \<times> 'c world" where
  "timezone_now w = (clock w, w\<lparr>clock := Suc (clock w)\<rparr>)"

text \<open>
  \<^verbatim>\<open>transaction.atomic\<close>, as a decorator and as a \<^verbatim>\<open>with\<close> block: when the body
  raises, the datastore is put back to what it was on entry and the exception goes on to
  the caller. The log messages, the clock and the repository are not part of the
  transaction.
\<close>

definition transaction_atomic :: "('a, 'c) prog \<Rightarrow> ('a, 'c) prog" where
  "transaction_atomic body w =
     (case body w of
        (Inl e, w') \<Rightarrow> (Inl e, w'\<lparr>db := db w\<rparr>)
      | (Inr x, w') \<Rightarrow> (Inr x, w'))"

text \<open>A \<^verbatim>\<open>for\<close> loop whose body may raise: the first exception ends the loop.\<close>

fun for_each :: "'a list \<Rightarrow> ('a \<Rightarrow> (unit, 'c) prog) \<Rightarrow> (unit, 'c) prog" where
  "for_each [] body w = (Inr (), w)"
| "for_each (x # xs) body w =
     (case body x w of
        (Inl e, w') \<Rightarrow> (Inl e, w')
      | (Inr u, w') \<Rightarrow> for_each xs body w')"

subsection \<open>Translation propagation\<close>

text \<open>
  Lines 28 to 32 of \<^verbatim>\<open>_try_update_resource_translation\<close>: the \<^verbatim>\<open>try\<close> statement that
  binds the local variables \<^verbatim>\<open>revision\<close> and \<^verbatim>\<open>created\<close>. The result is what the
  two variables are bound to after the statement: \<open>None\<close> when the handler of
  \<^verbatim>\<open>ParentNotTranslatedError\<close> ran, since the assignment never happened.
\<close>

definition try_create_or_update_translated_page ::
  "'c env \<Rightarrow> resource \<Rightarrow> nat \<Rightarrow> language \<Rightarrow> ((revision \<times> bool) option, 'c) prog" where
  "try_create_or_update_translated_page env resource translatable_submission language w =
     (case create_or_update_translated_page env (db w) translatable_submission language of
        (Inr (revision, created), d) \<Rightarrow> (Inr (Some (revision, created)), w\<lparr>db := d\<rparr>)
      | (Inl ParentNotTranslatedError, d) \<Rightarrow>
          (Inr None, logger_log (InfoParentMustBeTranslatedFirst resource language) (w\<lparr>db := d\<rparr>))
      | (Inl e, d) \<Rightarrow> (Inl e, w\<lparr>db := d\<rparr>))"

text \<open>
  \<^verbatim>\<open>_try_update_resource_translation\<close>. The first argument after the collaborators is
  the depth of call stack that is left: Python raises \<^verbatim>\<open>RecursionError\<close> when the
  recursion goes deeper. Reading the local variable \<^verbatim>\<open>created\<close> when it was never
  bound raises \<^verbatim>\<open>UnboundLocalError\<close>.
\<close>

fun try_update_resource_translation ::
  "'c env \<Rightarrow> nat \<Rightarrow> resource \<Rightarrow> language \<Rightarrow> (unit, 'c) prog" where
  "try_update_resource_translation env 0 resource language w = (Inl RecursionError, w)"
| "try_update_resource_translation env (Suc depth) resource language w =
     (case find_translatable_submission env (db w) resource language of
        None \<Rightarrow> (Inr (), w)
      | Some translatable_submission \<Rightarrow>
          (case try_create_or_update_translated_page env resource translatable_submission language
                  (logger_log (InfoSavingTranslatedPage resource language) w) of
             (Inl e, w2) \<Rightarrow> (Inl e, w2)
           | (Inr None, w2) \<Rightarrow> (Inl (UnboundLocalError ''created''), w2)
           | (Inr (Some (revision, created)), w2) \<Rightarrow>
               if created
               then for_each (child_page_resources env (db w2) revision)
                      (\<lambda>child w'. try_update_resource_translation env depth child language w') w2
               else (Inr (), w2)))"

subsection \<open>The pull reconciler\<close>

text \<open>
  Lines 47 to 50 of \<^verbatim>\<open>_pull\<close>:
  \<^verbatim>\<open>PontoonSyncLog.objects.order_by('-time').exclude(commit_id='').first()\<close>. The table
  is kept in the order of creation; the query sorts it by time, latest first.
\<close>

definition order_by_time_desc :: "pontoon_sync_log list \<Rightarrow> pontoon_sync_log list" where
  "order_by_time_desc logs = rev (sort_key time logs)"

definition last_commit_id :: "'c datastore \<Rightarrow> commit_id option" where
  "last_commit_id d =
     (case filter (\<lambda>l. commit_id l \<noteq> []) (order_by_time_desc (sync_logs d)) of
        [] \<Rightarrow> None
      | last_log # rest \<Rightarrow> Some (commit_id last_log))"

definition fresh_log_id :: "pontoon_sync_log list \<Rightarrow> nat" where
  "fresh_log_id logs = Suc (foldr max (map log_id logs) 0)"

text \<open>\<^verbatim>\<open>PontoonSyncLog.objects.create\<close>: the new row takes its time from the clock.\<close>

definition create_sync_log :: "action \<Rightarrow> commit_id \<Rightarrow> 'c world \<Rightarrow> pontoon_sync_log \<times> 'c world" where
  "create_sync_log a c w =
     (case timezone_now w of
        (now, w1) \<Rightarrow>
          (let log = \<lparr>log_id = fresh_log_id (sync_logs (db w1)), action = a,
                      commit_id = c, time = now\<rparr>
           in (log, w1\<lparr>db := (db w1)\<lparr>sync_logs := sync_logs (db w1) @ [log]\<rparr>\<rparr>)))"

definition create_sync_log_resource ::
  "nat \<Rightarrow> resource \<Rightarrow> language option \<Rightarrow> 'c world \<Rightarrow> 'c world" where
  "create_sync_log_resource log r l w =
     w\<lparr>db := (db w)\<lparr>sync_log_resources :=
        sync_log_resources (db w) @ [\<lparr>slr_log = log, slr_resource = r, slr_language = l\<rparr>]\<rparr>\<rparr>"

definition save_translation ::
  "segment \<times> language \<Rightarrow> segment_translation \<Rightarrow> 'c world \<Rightarrow> 'c world" where
  "save_translation k t w =
     w\<lparr>db := (db w)\<lparr>segment_translations := (segment_translations (db w))(k \<mapsto> t)\<rparr>\<rparr>"

text \<open>
  Line 99, \<^verbatim>\<open>except Segment.objects.DoesNotExist:\<close>. The class \<^verbatim>\<open>DoesNotExist\<close> is an
  attribute of the model \<^verbatim>\<open>Segment\<close>; its manager \<^verbatim>\<open>Segment.objects\<close> has no attribute
  of that name. Python evaluates the expression of an \<^verbatim>\<open>except\<close> clause when an
  exception reaches the clause, and not before: the lookup then raises
  \<^verbatim>\<open>AttributeError\<close>, which takes the place of the exception that was on its way.
\<close>

definition Segment_objects_DoesNotExist :: "error + unit" where
  "Segment_objects_DoesNotExist = Inl (AttributeError ''DoesNotExist'')"

text \<open>
  Lines 80 to 100: the body of the loop over the changed entries. \<^verbatim>\<open>Segment.objects.get\<close>
  raises when no segment has the text; the \<^verbatim>\<open>except\<close> clause is then evaluated, and
  the warning of the handler is logged only if that evaluation gives an exception class.
  The \<^verbatim>\<open>defaults\<close> of \<^verbatim>\<open>get_or_create\<close> read the clock before the lookup.
\<close>

definition import_changed_entry :: "language \<Rightarrow> po_entry \<Rightarrow> (unit, 'c) prog" where
  "import_changed_entry language changed_entry w =
     (case segments (db w) (msgid changed_entry) of
        None \<Rightarrow>
          (case Segment_objects_DoesNotExist of
             Inl e \<Rightarrow> (Inl e, w)
           | Inr caught \<Rightarrow>
               (Inr (), logger_log (WarningUnrecognisedSegment (msgid changed_entry)) w))
      | Some segment \<Rightarrow>
          (case timezone_now w of
             (now, w1) \<Rightarrow>
               (case segment_translations (db w1) (segment, language) of
                  None \<Rightarrow>
                    (Inr (), save_translation (segment, language)
                               \<lparr>tr_text = msgstr changed_entry, tr_updated_at = now\<rparr> w1)
                | Some translation \<Rightarrow>
                    if tr_text translation \<noteq> msgstr changed_entry
                    then (case timezone_now w1 of
                            (now', w2) \<Rightarrow>
                              (Inr (), save_translation (segment, language)
                                         (translation\<lparr>tr_text := msgstr changed_entry,
                                                      tr_updated_at := now'\<rparr>) w2))
                    else (Inr (), w1))))"

definition pofile_of_bytes :: "bytes \<Rightarrow> error + pofile" where
  "pofile_of_bytes content =
     (case decode_utf8 content of Inl e \<Rightarrow> Inl e | Inr s \<Rightarrow> polib_pofile s)"

text \<open>
  Lines 65 to 103: the body of the loop over the changed files. The \<^verbatim>\<open>with\<close> block
  holds the loop over the entries and the propagation; the lookup of the file, the
  SyncLogResource row and the parsing come before it.
\<close>

definition pull_file ::
  "'c env \<Rightarrow> nat \<Rightarrow> pontoon_sync_log \<Rightarrow> filename \<times> bytes \<times> bytes \<Rightarrow> (unit, 'c) prog" where
  "pull_file env depth log = (\<lambda>(filename, old_content, new_content) w.
     (let w1 = logger_log (InfoPullImporting filename) w in
      case get_by_po_filename env (db w1) filename of
        Inl e \<Rightarrow> (Inl e, w1)
      | Inr (resource, language) \<Rightarrow>
          (let w2 = create_sync_log_resource (log_id log) resource (Some language) w1 in
           case pofile_of_bytes old_content of
             Inl e \<Rightarrow> (Inl e, w2)
           | Inr old_po \<Rightarrow>
               (case pofile_of_bytes new_content of
                  Inl e \<Rightarrow> (Inl e, w2)
                | Inr new_po \<Rightarrow>
                    transaction_atomic
                      (\<lambda>w3. case for_each (changed_entries new_po old_po)
                                   (import_changed_entry language) w3 of
                               (Inl e, w4) \<Rightarrow> (Inl e, w4)
                             | (Inr u, w4) \<Rightarrow>
                                 try_update_resource_translation env depth resource language w4)
                      w2))))"

text \<open>The body of \<^verbatim>\<open>_pull\<close>, and \<^verbatim>\<open>_pull\<close> under its decorator.\<close>

definition pull_body :: "'c env \<Rightarrow> nat \<Rightarrow> (unit, 'c) prog" where
  "pull_body env depth w =
     (let last_commit = last_commit_id (db w) in
      case create_sync_log ACTION_PULL (get_head_commit_id (repo w)) w of
        (log, w1) \<Rightarrow>
          (let current_commit_id = get_head_commit_id (repo w1) in
           if last_commit = Some current_commit_id
           then (Inr (), logger_log InfoPullNoChanges w1)
           else for_each
                  (get_changed_files env (repo w1) last_commit (get_head_commit_id (repo w1)))
                  (pull_file env depth log) w1))"

definition pull :: "'c env \<Rightarrow> nat \<Rightarrow> (unit, 'c) prog" where
  "pull env depth = transaction_atomic (pull_body env depth)"

subsection \<open>The push reconciler\<close>

text \<open>
  Modelled from the spec: the writer of \<^verbatim>\<open>git.py\<close>. A new writer is empty;
  \<^verbatim>\<open>copy_unmanaged_files\<close> takes over from the reader every file that is not a
  translation file; \<^verbatim>\<open>commit\<close> makes the writer's files the tree of a new head commit.
\<close>

definition new_writer :: repository_writer where
  "new_writer = \<lparr>w_tree = Map.empty, w_config = None\<rparr>"

definition copy_unmanaged_files ::
  "'c env \<Rightarrow> (filename \<rightharpoonup> bytes) \<Rightarrow> repository_writer \<Rightarrow> repository_writer" where
  "copy_unmanaged_files env reader wr =
     wr\<lparr>w_tree := (\<lambda>f. if is_managed_file env f then w_tree wr f else reader f)\<rparr>"

definition writer_commit :: "'c env \<Rightarrow> repository_writer \<Rightarrow> string \<Rightarrow> repository \<Rightarrow> repository" where
  "writer_commit env wr message r =
     r\<lparr>head_commit_id := new_commit_id env r wr message, tree := w_tree wr,
       ops := ops r @ [OpCommit message]\<rparr>"

text \<open>
  Lines 114 to 120: the body of the \<^verbatim>\<open>try\<close> statement of \<^verbatim>\<open>update_po\<close>, whose
  value is what \<^verbatim>\<open>new_po_string\<close> is bound to at its end.
\<close>

definition merge_current_metadata :: "(filename \<rightharpoonup> bytes) \<Rightarrow> filename \<Rightarrow> str \<Rightarrow> error + str" where
  "merge_current_metadata reader filename new_po_string =
     (case read_file reader filename of
        Inl e \<Rightarrow> Inl e
      | Inr current_bytes \<Rightarrow>
     (case decode_utf8 current_bytes of
        Inl e \<Rightarrow> Inl e
      | Inr current_po_string \<Rightarrow>
     (case polib_pofile current_po_string of
        Inl e \<Rightarrow> Inl e
      | Inr current_po \<Rightarrow>
     (case polib_pofile new_po_string of
        Inl e \<Rightarrow> Inl e
      | Inr new_po \<Rightarrow> Inr (po_str (new_po\<lparr>metadata := metadata current_po\<rparr>))))))"

text \<open>
  \<^verbatim>\<open>update_po\<close>: the handler catches \<^verbatim>\<open>KeyError\<close> and nothing else; the file is
  written after the \<^verbatim>\<open>try\<close> statement, so an exception that is not caught leaves
  the writer as it was.
\<close>

definition update_po ::
  "(filename \<rightharpoonup> bytes) \<Rightarrow> filename \<Rightarrow> str \<Rightarrow> repository_writer \<Rightarrow> error + repository_writer" where
  "update_po reader filename new_po_string wr =
     (case merge_current_metadata reader filename new_po_string of
        Inr merged \<Rightarrow> Inr (write_file filename merged wr)
      | Inl (KeyError k) \<Rightarrow> Inr (write_file filename new_po_string wr)
      | Inl e \<Rightarrow> Inl e)"

text \<open>
  Line 131: the submissions whose revision is the current revision of their resource,
  ordered by the path of the resource.
\<close>

definition resource_path :: "'c datastore \<Rightarrow> pontoon_resource_submission \<Rightarrow> string" where
  "resource_path d s = (case resources d (sub_resource s) of None \<Rightarrow> [] | Some r \<Rightarrow> path r)"

definition is_current :: "'c datastore \<Rightarrow> pontoon_resource_submission \<Rightarrow> bool" where
  "is_current d s =
     (case resources d (sub_resource s) of
        None \<Rightarrow> False
      | Some r \<Rightarrow> revision_id s = current_revision_id r)"

definition current_submissions :: "'c datastore \<Rightarrow> pontoon_resource_submission list" where
  "current_submissions d = sort_key (resource_path d) (filter (is_current d) (submissions d))"

text \<open>Lines 135 to 137: the loop over the languages, for one submission.\<close>

fun write_language_files ::
  "'c env \<Rightarrow> 'c datastore \<Rightarrow> (filename \<rightharpoonup> bytes) \<Rightarrow> resource \<Rightarrow> language list \<Rightarrow>
   repository_writer \<Rightarrow> error + repository_writer" where
  "write_language_files env d reader r [] wr = Inr wr"
| "write_language_files env d reader r (language # languages) wr =
     (case update_po reader (get_po_filename env d r (Some language))
             (generate_language_pofile env d r language) wr of
        Inl e \<Rightarrow> Inl e
      | Inr wr' \<Rightarrow> write_language_files env d reader r languages wr')"

text \<open>
  Lines 131 to 141: the loop over the submissions. Its state is the writer, the list
  \<^verbatim>\<open>paths\<close> and the list \<^verbatim>\<open>pushed_submission_ids\<close>.
\<close>

fun write_submissions ::
  "'c env \<Rightarrow> 'c datastore \<Rightarrow> (filename \<rightharpoonup> bytes) \<Rightarrow> language list \<Rightarrow>
   pontoon_resource_submission list \<Rightarrow>
   repository_writer \<times> (filename \<times> string) list \<times> nat list \<Rightarrow>
   error + repository_writer \<times> (filename \<times> string) list \<times> nat list" where
  "write_submissions env d reader languages [] acc = Inr acc"
| "write_submissions env d reader languages (submission # rest) (wr, paths, pushed_submission_ids) =
     (case update_po reader (get_po_filename env d (sub_resource submission) None)
             (generate_source_pofile env d (sub_resource submission)) wr of
        Inl e \<Rightarrow> Inl e
      | Inr wr1 \<Rightarrow>
     (case write_language_files env d reader (sub_resource submission) languages wr1 of
        Inl e \<Rightarrow> Inl e
      | Inr wr2 \<Rightarrow>
          write_submissions env d reader languages rest
            (wr2,
             paths @ [(get_po_filename env d (sub_resource submission) None,
                       get_locale_po_filename_template env d (sub_resource submission))],
             pushed_submission_ids @ [sub_id submission])))"

text \<open>
  Line 146: the submissions just written that have not been pushed before, as a
  condition on a row; the query set is evaluated where it is used.
\<close>

definition is_pushed_submission :: "nat list \<Rightarrow> pontoon_resource_submission \<Rightarrow> bool" where
  "is_pushed_submission ids s = (sub_id s \<in> set ids \<and> push_log s = None)"

definition pushed_submissions ::
  "'c datastore \<Rightarrow> nat list \<Rightarrow> pontoon_resource_submission list" where
  "pushed_submissions d ids = filter (is_pushed_submission ids) (submissions d)"

definition update_pushed_submissions :: "nat list \<Rightarrow> nat \<Rightarrow> nat \<Rightarrow> 'c world \<Rightarrow> 'c world" where
  "update_pushed_submissions ids now log w =
     w\<lparr>db := (db w)\<lparr>submissions :=
        map (\<lambda>s. if is_pushed_submission ids s
                  then s\<lparr>pushed_at := Some now, push_log := Some log\<rparr> else s)
            (submissions (db w))\<rparr>\<rparr>"

text \<open>\<^verbatim>\<open>log.save(update_fields=['commit_id'])\<close>.\<close>

definition save_commit_id :: "nat \<Rightarrow> commit_id \<Rightarrow> 'c world \<Rightarrow> 'c world" where
  "save_commit_id log c w =
     w\<lparr>db := (db w)\<lparr>sync_logs :=
        map (\<lambda>l. if log_id l = log then l\<lparr>commit_id := c\<rparr> else l) (sync_logs (db w))\<rparr>\<rparr>"

text \<open>Lines 148 to 175: the end of \<^verbatim>\<open>_push\<close>, once the files and the config are written.\<close>

definition finalize_push :: "'c env \<Rightarrow> repository_writer \<Rightarrow> nat list \<Rightarrow> 'c world \<Rightarrow> 'c world" where
  "finalize_push env writer pushed_submission_ids w =
     (if pushed_submissions (db w) pushed_submission_ids \<noteq> []
      then
        (case create_sync_log ACTION_PUSH [] w of
           (log, w1) \<Rightarrow>
        (let w2 = fold (\<lambda>resource_id. create_sync_log_resource (log_id log) resource_id None)
                    (map sub_resource (pushed_submissions (db w1) pushed_submission_ids)) w1 in
         case timezone_now w2 of
           (now, w3) \<Rightarrow>
        (let w4 = update_pushed_submissions pushed_submission_ids now (log_id log) w3;
             w7 = (if has_changes env writer (tree (repo w4))
                   then (let w5 = logger_log InfoPushCommitting w4;
                             w6 = w5\<lparr>repo := writer_commit env writer ''Updates to source content''
                                               (repo w5)\<rparr>
                         in save_commit_id (log_id log) (get_head_commit_id (repo w6)) w6)
                   else logger_log InfoPushNotCommitting w4)
         in w7\<lparr>repo := Repository_push (repo w7)\<rparr>)))
      else logger_log InfoPushNoChanges w)"

text \<open>The body of \<^verbatim>\<open>_push\<close>, and \<^verbatim>\<open>_push\<close> under its decorator.\<close>

definition push_body :: "'c env \<Rightarrow> (unit, 'c) prog" where
  "push_body env w =
     (let reader = tree (repo w);
          writer = copy_unmanaged_files env reader new_writer;
          languages = active_languages env (db w)
      in case write_submissions env (db w) reader languages (current_submissions (db w))
                (writer, [], []) of
           Inl e \<Rightarrow> (Inl e, w)
         | Inr (writer1, paths, pushed_submission_ids) \<Rightarrow>
             (Inr (), finalize_push env
                        (write_config (map (as_rfc5646_language_tag env) languages) paths writer1)
                        pushed_submission_ids w))"

definition push :: "'c env \<Rightarrow> (unit, 'c) prog" where
  "push env = transaction_atomic (push_body env)"

subsection \<open>The sync manager\<close>

text \<open>
  \<^verbatim>\<open>SyncManager.sync\<close>: \<^verbatim>\<open>Repository.open()\<close> gives the repository of the world;
  an exception of \<^verbatim>\<open>_pull\<close> ends the call before \<^verbatim>\<open>_push\<close>.
\<close>

definition sync :: "'c env \<Rightarrow> nat \<Rightarrow> (unit, 'c) prog" where
  "sync env depth w =
     (let w1 = logger_log InfoPullingRepository w;
          w2 = w1\<lparr>repo := Repository_pull (repo w1)\<rparr>
      in case pull env depth w2 of
           (Inl e, w3) \<Rightarrow> (Inl e, w3)
         | (Inr u, w3) \<Rightarrow>
             (case push env w3 of
                (Inl e, w4) \<Rightarrow> (Inl e, w4)
              | (Inr u', w4) \<Rightarrow> (Inr (), logger_log InfoFinished w4)))"

definition trigger :: "'c env \<Rightarrow> nat \<Rightarrow> (unit, 'c) prog" where
  "trigger env depth w = sync env depth w"

definition is_queued :: "'c world \<Rightarrow> bool" where
  "is_queued w = False"

definition is_running :: "'c world \<Rightarrow> bool" where
  "is_running w = False"

subsection \<open>The management command\<close>

text \<open>
  \<^verbatim>\<open>management/commands/sync_pontoon.py\<close> holds an older variant of the pull:
  \<^verbatim>\<open>try_update_resource_translation\<close> and \<^verbatim>\<open>Command.handle_pull\<close>. It prints where
  \<^verbatim>\<open>sync.py\<close> logs; what it prints is kept with the log messages. The watermark is the
  commit id of the most recent SyncLog entry, empty or not; no SyncLogResource row is
  written; the call of \<^verbatim>\<open>create_or_update_translated_page\<close> has a transaction of its
  own. Line 88 has the same \<^verbatim>\<open>except Segment.objects.DoesNotExist:\<close>.
\<close>

definition command_try_create_or_update_translated_page ::
  "'c env \<Rightarrow> nat \<Rightarrow> language \<Rightarrow> ((revision \<times> bool) option, 'c) prog" where
  "command_try_create_or_update_translated_page env translatable_submission language w =
     (case transaction_atomic
             (\<lambda>w0. case create_or_update_translated_page env (db w0) translatable_submission
                            language of
                      (r, d) \<Rightarrow> (r, w0\<lparr>db := d\<rparr>)) w of
        (Inr (revision, created), w') \<Rightarrow> (Inr (Some (revision, created)), w')
      | (Inl ParentNotTranslatedError, w') \<Rightarrow>
          (Inr None, logger_log PrintParentMustBeTranslatedFirst w')
      | (Inl e, w') \<Rightarrow> (Inl e, w'))"

fun command_try_update_resource_translation ::
  "'c env \<Rightarrow> nat \<Rightarrow> resource \<Rightarrow> language \<Rightarrow> (unit, 'c) prog" where
  "command_try_update_resource_translation env 0 resource language w = (Inl RecursionError, w)"
| "command_try_update_resource_translation env (Suc depth) resource language w =
     (case find_translatable_submission env (db w) resource language of
        None \<Rightarrow> (Inr (), w)
      | Some translatable_submission \<Rightarrow>
          (case command_try_create_or_update_translated_page env translatable_submission language
                  (logger_log (PrintSavingTranslatedPage resource) w) of
             (Inl e, w2) \<Rightarrow> (Inl e, w2)
           | (Inr None, w2) \<Rightarrow> (Inl (UnboundLocalError ''created''), w2)
           | (Inr (Some (revision, created)), w2) \<Rightarrow>
               if created
               then for_each (child_page_resources env (db w2) revision)
                      (\<lambda>child w'. command_try_update_resource_translation env depth child
                                     language w') w2
               else (Inr (), w2)))"

definition command_import_changed_entry :: "language \<Rightarrow> po_entry \<Rightarrow> (unit, 'c) prog" where
  "command_import_changed_entry language changed_entry w =
     (case segments (db w) (msgid changed_entry) of
        None \<Rightarrow>
          (case Segment_objects_DoesNotExist of
             Inl e \<Rightarrow> (Inl e, w)
           | Inr caught \<Rightarrow> (Inr (), logger_log PrintUnrecognisedSegment w))
      | Some segment \<Rightarrow>
          (case timezone_now w of
             (now, w1) \<Rightarrow>
               (case segment_translations (db w1) (segment, language) of
                  None \<Rightarrow>
                    (Inr (), save_translation (segment, language)
                               \<lparr>tr_text = msgstr changed_entry, tr_updated_at = now\<rparr> w1)
                | Some translation \<Rightarrow>
                    if tr_text translation \<noteq> msgstr changed_entry
                    then (case timezone_now w1 of
                            (now', w2) \<Rightarrow>
                              (Inr (), save_translation (segment, language)
                                         (translation\<lparr>tr_text := msgstr changed_entry,
                                                      tr_updated_at := now'\<rparr>) w2))
                    else (Inr (), w1))))"

definition handle_pull_file ::
  "'c env \<Rightarrow> nat \<Rightarrow> filename \<times> bytes \<times> bytes \<Rightarrow> (unit, 'c) prog" where
  "handle_pull_file env depth = (\<lambda>(filename, old_content, new_content) w.
     (let w1 = logger_log (PrintIngestingChanges filename) w in
      case get_by_po_filename env (db w1) filename of
        Inl e \<Rightarrow> (Inl e, w1)
      | Inr (resource, language) \<Rightarrow>
          (case pofile_of_bytes old_content of
             Inl e \<Rightarrow> (Inl e, w1)
           | Inr old_po \<Rightarrow>
               (case pofile_of_bytes new_content of
                  Inl e \<Rightarrow> (Inl e, w1)
                | Inr new_po \<Rightarrow>
                    transaction_atomic
                      (\<lambda>w3. case for_each (changed_entries new_po old_po)
                                   (command_import_changed_entry language) w3 of
                               (Inl e, w4) \<Rightarrow> (Inl e, w4)
                             | (Inr u, w4) \<Rightarrow>
                                 command_try_update_resource_translation env depth resource
                                   language w4)
                      w1))))"

text \<open>Lines 44 to 47: \<^verbatim>\<open>PontoonSyncLog.objects.order_by('-time').first()\<close>.\<close>

definition command_last_commit_id :: "'c datastore \<Rightarrow> commit_id option" where
  "command_last_commit_id d =
     (case order_by_time_desc (sync_logs d) of
        [] \<Rightarrow> None
      | last_log # rest \<Rightarrow> Some (commit_id last_log))"

definition handle_pull_body :: "'c env \<Rightarrow> nat \<Rightarrow> (unit, 'c) prog" where
  "handle_pull_body env depth w =
     (let last_commit = command_last_commit_id (db w) in
      case create_sync_log ACTION_PULL (get_head_commit_id (repo w)) w of
        (log, w1) \<Rightarrow>
          (let current_commit_id = get_head_commit_id (repo w1) in
           if last_commit = Some current_commit_id
           then (Inr (), logger_log PrintPullNoChanges w1)
           else for_each
                  (get_changed_files env (repo w1) last_commit (get_head_commit_id (repo w1)))
                  (handle_pull_file env depth) w1))"

definition handle_pull :: "'c env \<Rightarrow> nat \<Rightarrow> (unit, 'c) prog" where
  "handle_pull env depth = transaction_atomic (handle_pull_body env depth)"

subsection \<open>Notions used in the proofs\<close>

text \<open>
  A step of the pull \<open>keeps the log\<close> when it leaves the SyncLog table and the
  repository as they were and does not turn the clock back.
\<close>

definition keeps_log :: "'c world \<Rightarrow> 'c world \<Rightarrow> bool" where
  "keeps_log w w' =
     (sync_logs (db w') = sync_logs (db w) \<and> repo w' = repo w \<and> clock w \<le> clock w')"

text \<open>
  The resource catalog \<open>leaves the log alone\<close> when materialising a translated page
  never writes the SyncLog table, which the spec gives to the core alone.
\<close>

definition leaves_log_alone :: "'c env \<Rightarrow> bool" where
  "leaves_log_alone env =
     (\<forall>d s l. sync_logs (snd (create_or_update_translated_page env d s l)) = sync_logs d)"

text \<open>
  What holds of the world between two syncs: the watermark is the head of the
  repository, the remote is at the local head, and no current submission is unpushed.
\<close>

definition in_sync :: "'c world \<Rightarrow> bool" where
  "in_sync w =
     (last_commit_id (db w) = Some (head_commit_id (repo w))
      \<and> remote_head (repo w) = head_commit_id (repo w)
      \<and> pushed_submissions (db w) (map sub_id (current_submissions (db w))) = [])"

subsection \<open>Example inputs\<close>

text \<open>
  A small installation used to evaluate the functions at concrete inputs: one resource
  \<open>about\<close> with one current submission, the language \<open>fr\<close>, one segment \<open>Hello\<close>.
\<close>

definition example_po :: "string \<Rightarrow> string \<Rightarrow> pofile" where
  "example_po source target = \<lparr>metadata = [], entries = [\<lparr>msgid = source, msgstr = target\<rparr>]\<rparr>"

definition example_env :: "unit env" where
  "example_env =
     \<lparr>get_by_po_filename =
        (\<lambda>d f. if f = ''fr/about.po'' then Inr (1, ''fr'') else Inl (UnrecognizedFileError f)),
      find_translatable_submission = (\<lambda>d r l. None),
      create_or_update_translated_page = (\<lambda>d s l. (Inr (s, False), d)),
      child_page_resources = (\<lambda>d rev. []),
      get_changed_files = (\<lambda>r a b. []),
      active_languages = (\<lambda>d. [''fr'']),
      as_rfc5646_language_tag = (\<lambda>l. l),
      generate_source_pofile = (\<lambda>d r. PoText (example_po ''Hello'' [])),
      generate_language_pofile = (\<lambda>d r l. PoText (example_po ''Hello'' ''Bonjour'')),
      get_po_filename = (\<lambda>d r l. case l of None \<Rightarrow> ''about.pot'' | Some c \<Rightarrow> c @ ''/about.po''),
      get_locale_po_filename_template = (\<lambda>d r. ''{locale}/about.po''),
      is_managed_file = (\<lambda>f. True),
      has_changes = (\<lambda>wr t. True),
      new_commit_id = (\<lambda>r wr m. CHR ''c'' # head_commit_id r)\<rparr>"

definition example_db :: "unit datastore" where
  "example_db =
     \<lparr>sync_logs = [], sync_log_resources = [], segments = [''Hello'' \<mapsto> 1],
      segment_translations = Map.empty,
      submissions = [\<lparr>sub_id = 1, sub_resource = 1, revision_id = 1,
                      pushed_at = None, push_log = None\<rparr>],
      resources = [1 \<mapsto> \<lparr>path = ''about'', current_revision_id = 1\<rparr>], cms = ()\<rparr>"

definition example_world :: "unit world" where
  "example_world =
     \<lparr>db = example_db,
      repo = \<lparr>head_commit_id = ''a'', tree = Map.empty, remote_head = ''a'',
               remote_tree = Map.empty, ops = []\<rparr>,
      messages = [], clock = 0\<rparr>"

text \<open>Two changed files: the first belongs to the resource, the second to none.\<close>

definition example_changed_files :: "(filename \<times> bytes \<times> bytes) list" where
  "example_changed_files =
     [(''fr/about.po'', Utf8 (PoText (example_po ''Hello'' [])),
                        Utf8 (PoText (example_po ''Hello'' ''Bonjour''))),
      (''fr/unknown.po'', Utf8 (PoText (example_po ''Bye'' [])),
                          Utf8 (PoText (example_po ''Bye'' ''Au revoir'')))]"

text \<open>The example world after a pull of the commit \<open>a\<close> was logged.\<close>

definition example_synced_world :: "unit world" where
  "example_synced_world =
     example_world\<lparr>db := example_db\<lparr>sync_logs :=
        [\<lparr>log_id = 1, action = ACTION_PULL, commit_id = ''a'', time = 0\<rparr>]\<rparr>, clock := 1\<rparr>"

text \<open>The example world with a French translation of the segment already stored.\<close>

definition example_translated_world :: "unit world" where
  "example_translated_world =
     example_world\<lparr>db := example_db\<lparr>segment_translations :=
        [(1, ''fr'') \<mapsto> \<lparr>tr_text = ''Bonjour'', tr_updated_at = 5\<rparr>]\<rparr>, clock := 7\<rparr>"

text \<open>
  The example world after a pull of the commit \<open>a\<close> and a push that was logged with no
  commit: the most recent SyncLog entry has an empty commit id.
\<close>

definition example_pushed_world :: "unit world" where
  "example_pushed_world =
     example_world\<lparr>db := example_db\<lparr>sync_logs :=
        [\<lparr>log_id = 1, action = ACTION_PULL, commit_id = ''a'', time = 0\<rparr>,
         \<lparr>log_id = 2, action = ACTION_PUSH, commit_id = [], time = 1\<rparr>],
        submissions := [\<lparr>sub_id = 1, sub_resource = 1, revision_id = 1,
                         pushed_at = Some 2, push_log = Some 2\<rparr>]\<rparr>, clock := 3\<rparr>"

text \<open>
  A changed file of the resource with two new entries: the source text of the first has
  no segment, the source text of the second has one.
\<close>

definition example_file_with_unknown_segment :: "filename \<times> bytes \<times> bytes" where
  "example_file_with_unknown_segment =
     (''fr/about.po'',
      Utf8 (PoText \<lparr>metadata = [], entries = []\<rparr>),
      Utf8 (PoText \<lparr>metadata = [],
                    entries = [\<lparr>msgid = ''Bye'', msgstr = ''Au revoir''\<rparr>,
                               \<lparr>msgid = ''Hello'', msgstr = ''Bonjour''\<rparr>]\<rparr>))"

text \<open>The example world with a file in the repository that is not valid UTF-8.\<close>

definition example_world_with_bad_file :: "unit world" where
  "example_world_with_bad_file =
     example_world\<lparr>repo := (repo example_world)\<lparr>tree := [''about.pot'' \<mapsto> NotUtf8 [255]]\<rparr>\<rparr>"

section \<open>Properties\<close>

lemmas example_defs = example_env_def example_world_def example_db_def example_po_def
  example_changed_files_def example_synced_world_def example_translated_world_def
  example_pushed_world_def example_file_with_unknown_segment_def
  example_world_with_bad_file_def

lemmas pull_defs = pull_def pull_body_def transaction_atomic_def create_sync_log_def
  timezone_now_def get_head_commit_id_def last_commit_id_def order_by_time_desc_def
  pull_file_def create_sync_log_resource_def pofile_of_bytes_def decode_utf8_def
  polib_pofile_def changed_entries_def import_changed_entry_def save_translation_def
  logger_log_def fresh_log_id_def Segment_objects_DoesNotExist_def

lemma logger_log_db [simp]: "db (logger_log m w) = db w"
  and logger_log_repo [simp]: "repo (logger_log m w) = repo w"
  and logger_log_clock [simp]: "clock (logger_log m w) = clock w"
  and logger_log_messages [simp]: "messages (logger_log m w) = messages w @ [m]"
  by (simp_all add: logger_log_def)

lemma for_each_append:
  "for_each (xs @ ys) body w =
     (case for_each xs body w of (Inl e, w') \<Rightarrow> (Inl e, w') | (Inr u, w') \<Rightarrow> for_each ys body w')"
  by (induction xs arbitrary: w) (auto split: prod.splits sum.splits)

subsection \<open>Propagation and the parent that is not translated\<close>

lemma try_update_parent_not_translated:
  assumes "find_translatable_submission env (db w) r l = Some s"
    and "create_or_update_translated_page env (db w) s l = (Inl ParentNotTranslatedError, d)"
  shows "try_update_resource_translation env (Suc depth) r l w =
           (Inl (UnboundLocalError ''created''),
            logger_log (InfoParentMustBeTranslatedFirst r l)
              ((logger_log (InfoSavingTranslatedPage r l) w)\<lparr>db := d\<rparr>))"
  using assms by (simp add: try_create_or_update_translated_page_def)

text \<open>
  Claim C5, as the code has it. The claim says that no exception reaches the caller of
  the propagation when \<^verbatim>\<open>create_or_update_translated_page\<close> raises
  \<^verbatim>\<open>ParentNotTranslatedError\<close>. The handler runs and logs, but the statement after it
  reads \<^verbatim>\<open>created\<close>, which was never bound: for every resource, language and world,
  with collaborators that find a submission and raise \<^verbatim>\<open>ParentNotTranslatedError\<close>,
  the call ends with \<^verbatim>\<open>UnboundLocalError\<close>, after the two log messages. No child
  resource is visited.
\<close>

theorem C5_unbound_local_escapes:
  "try_update_resource_translation
     (env\<lparr>find_translatable_submission := (\<lambda>d r l. Some s),
          create_or_update_translated_page := (\<lambda>d s l. (Inl ParentNotTranslatedError, d))\<rparr>)
     (Suc depth) r l w =
   (Inl (UnboundLocalError ''created''),
    logger_log (InfoParentMustBeTranslatedFirst r l) (logger_log (InfoSavingTranslatedPage r l) w))"
  by (simp add: try_create_or_update_translated_page_def logger_log_def)

subsection \<open>The loop over the changed entries\<close>

lemma import_changed_entry_unrecognised:
  "segments (db w) (msgid e) = None \<Longrightarrow>
   import_changed_entry language e w = (Inl (AttributeError ''DoesNotExist''), w)"
  by (simp add: import_changed_entry_def Segment_objects_DoesNotExist_def)

text \<open>
  Claim C6, as the code has it. The claim says that an entry whose source text has no
  segment is skipped with a warning, that no exception escapes and that the remaining
  entries are processed; the handler with its warning shows that this was meant. But the
  \<^verbatim>\<open>except\<close> clause names \<^verbatim>\<open>Segment.objects.DoesNotExist\<close>, which does not exist:
  for such an entry the loop body raises \<^verbatim>\<open>AttributeError\<close> and leaves the world as
  it was, so no warning is logged; and a loop that starts with the entry ends with that
  exception, whatever entries \<open>es\<close> follow it, so they are not processed.
\<close>

theorem C6_unrecognised_segment_raises:
  assumes "segments (db w) (msgid e) = None"
  shows "import_changed_entry language e w = (Inl (AttributeError ''DoesNotExist''), w)
       \<and> for_each (e # es) (import_changed_entry language) w =
           (Inl (AttributeError ''DoesNotExist''), w)"
  using import_changed_entry_unrecognised [OF assms, of language] by simp

text \<open>
  At a concrete input: a pull of one changed file whose first new entry has no segment
  raises \<^verbatim>\<open>AttributeError\<close>; the only log message is the one of the file, the
  translation of the second entry is not stored, and the SyncLog entry of the pull is
  taken back with the rest.
\<close>

theorem C6_witness:
  "segments (db example_world) (msgid \<lparr>msgid = ''Bye'', msgstr = ''Au revoir''\<rparr>) = None
   \<and> for_each [\<lparr>msgid = ''Bye'', msgstr = ''Au revoir''\<rparr>,
               \<lparr>msgid = ''Hello'', msgstr = ''Bonjour''\<rparr>]
        (import_changed_entry ''fr'') example_world
       = (Inl (AttributeError ''DoesNotExist''), example_world)
   \<and> fst (pull (example_env\<lparr>get_changed_files :=
                    (\<lambda>r a b. [example_file_with_unknown_segment])\<rparr>) (Suc 0) example_world)
       = Inl (AttributeError ''DoesNotExist'')
   \<and> messages (snd (pull (example_env\<lparr>get_changed_files :=
                    (\<lambda>r a b. [example_file_with_unknown_segment])\<rparr>) (Suc 0) example_world))
       = [InfoPullImporting ''fr/about.po'']
   \<and> segment_translations
        (db (snd (pull (example_env\<lparr>get_changed_files :=
                    (\<lambda>r a b. [example_file_with_unknown_segment])\<rparr>) (Suc 0) example_world)))
        (1, ''fr'') = None
   \<and> sync_logs
        (db (snd (pull (example_env\<lparr>get_changed_files :=
                    (\<lambda>r a b. [example_file_with_unknown_segment])\<rparr>) (Suc 0) example_world)))
       = []"
proof -
  have h: "segments (db example_world) (msgid \<lparr>msgid = ''Bye'', msgstr = ''Au revoir''\<rparr>) = None"
    by (simp add: example_defs)
  have p: "fst (pull (example_env\<lparr>get_changed_files :=
                    (\<lambda>r a b. [example_file_with_unknown_segment])\<rparr>) (Suc 0) example_world)
       = Inl (AttributeError ''DoesNotExist'')
   \<and> messages (snd (pull (example_env\<lparr>get_changed_files :=
                    (\<lambda>r a b. [example_file_with_unknown_segment])\<rparr>) (Suc 0) example_world))
       = [InfoPullImporting ''fr/about.po'']
   \<and> segment_translations
        (db (snd (pull (example_env\<lparr>get_changed_files :=
                    (\<lambda>r a b. [example_file_with_unknown_segment])\<rparr>) (Suc 0) example_world)))
        (1, ''fr'') = None
   \<and> sync_logs
        (db (snd (pull (example_env\<lparr>get_changed_files :=
                    (\<lambda>r a b. [example_file_with_unknown_segment])\<rparr>) (Suc 0) example_world)))
       = []"
    by (simp add: example_defs pull_defs Let_def)
  from C6_unrecognised_segment_raises
         [OF h, of "''fr''" "[\<lparr>msgid = ''Hello'', msgstr = ''Bonjour''\<rparr>]"]
  show ?thesis using h p by simp
qed

text \<open>
  Claim C3. An entry is processed whose segment exists and has a translation \<open>t\<close> for the
  language. If the incoming text is the stored text, the datastore after the entry is the
  datastore before it: nothing is saved. If it differs, the translation gets the new
  text and a new time. And for every translation that existed before: it still exists,
  and its \<^verbatim>\<open>updated_at\<close> has changed only if it is the translation of this segment and
  language and its text differed from the incoming one.
\<close>

theorem C3_unchanged_text_not_resaved:
  assumes "segments (db w) (msgid e) = Some s"
    and "segment_translations (db w) (s, language) = Some t"
  shows "(tr_text t = msgstr e \<longrightarrow> db (snd (import_changed_entry language e w)) = db w)
       \<and> (tr_text t \<noteq> msgstr e \<longrightarrow>
            segment_translations (db (snd (import_changed_entry language e w))) (s, language) =
              Some (t\<lparr>tr_text := msgstr e, tr_updated_at := Suc (clock w)\<rparr>))
       \<and> (\<forall>k t0. segment_translations (db w) k = Some t0 \<longrightarrow>
            (\<exists>t1. segment_translations (db (snd (import_changed_entry language e w))) k = Some t1
                  \<and> (tr_updated_at t1 \<noteq> tr_updated_at t0 \<longrightarrow>
                       k = (s, language) \<and> tr_text t0 \<noteq> msgstr e)))"
  using assms
  by (auto simp: import_changed_entry_def timezone_now_def save_translation_def)

theorem C3_witness:
  "segments (db example_translated_world) (msgid \<lparr>msgid = ''Hello'', msgstr = ''Bonjour''\<rparr>) = Some 1
   \<and> segment_translations (db example_translated_world) (1, ''fr'')
       = Some \<lparr>tr_text = ''Bonjour'', tr_updated_at = 5\<rparr>
   \<and> db (snd (import_changed_entry ''fr'' \<lparr>msgid = ''Hello'', msgstr = ''Bonjour''\<rparr>
                 example_translated_world)) = db example_translated_world
   \<and> segment_translations
        (db (snd (import_changed_entry ''fr'' \<lparr>msgid = ''Hello'', msgstr = ''Salut''\<rparr>
                    example_translated_world))) (1, ''fr'')
       = Some \<lparr>tr_text = ''Salut'', tr_updated_at = 8\<rparr>"
proof -
  have h1: "segments (db example_translated_world)
              (msgid \<lparr>msgid = ''Hello'', msgstr = ''Bonjour''\<rparr>) = Some 1"
    by (simp add: example_defs)
  have h1': "segments (db example_translated_world)
              (msgid \<lparr>msgid = ''Hello'', msgstr = ''Salut''\<rparr>) = Some 1"
    by (simp add: example_defs)
  have h2: "segment_translations (db example_translated_world) (1, ''fr'')
              = Some \<lparr>tr_text = ''Bonjour'', tr_updated_at = 5\<rparr>"
    by (simp add: example_defs)
  have c: "clock example_translated_world = 7"
    by (simp add: example_defs)
  from C3_unchanged_text_not_resaved [OF h1 h2] C3_unchanged_text_not_resaved [OF h1' h2]
  show ?thesis using h1 h2 c by simp
qed

subsection \<open>A pull at the watermark\<close>

lemma create_sync_log_world:
  "snd (create_sync_log a c w) =
     w\<lparr>db := (db w)\<lparr>sync_logs := sync_logs (db w) @
            [\<lparr>log_id = fresh_log_id (sync_logs (db w)), action = a, commit_id = c,
              time = clock w\<rparr>]\<rparr>,
       clock := Suc (clock w)\<rparr>"
  by (simp add: create_sync_log_def timezone_now_def Let_def)

lemma pull_noop:
  assumes "last_commit_id (db w) = Some (get_head_commit_id (repo w))"
  shows "pull env depth w =
           (Inr (), logger_log InfoPullNoChanges
                      (snd (create_sync_log ACTION_PULL (get_head_commit_id (repo w)) w)))"
  using assms
  by (simp add: pull_def pull_body_def transaction_atomic_def create_sync_log_def
        timezone_now_def Let_def get_head_commit_id_def split: prod.splits)

text \<open>
  What claim C1 says holds of \<^verbatim>\<open>_pull\<close>. When the most recent SyncLog entry with a
  non-empty commit id records the
  commit \<open>c\<close> and the head of the repository is \<open>c\<close>, a pull returns without an
  exception; the datastore after it is the datastore before it with one more SyncLog
  entry, of action PULL and commit \<open>c\<close>; no SyncLogResource row and no Translation is
  added or changed; the repository is untouched; the only log message is the one that
  says there are no changes, so no file is imported; and the result does not depend on
  the collaborators, so neither the diff of the repository nor the resource catalog is
  consulted.
\<close>

lemma pull_at_watermark_is_noop:
  assumes "last_commit_id (db w) = Some c" and "get_head_commit_id (repo w) = c"
  shows "fst (pull env depth w) = Inr ()
       \<and> db (snd (pull env depth w)) =
           (db w)\<lparr>sync_logs := sync_logs (db w) @
              [\<lparr>log_id = fresh_log_id (sync_logs (db w)), action = ACTION_PULL,
                commit_id = c, time = clock w\<rparr>]\<rparr>
       \<and> sync_log_resources (db (snd (pull env depth w))) = sync_log_resources (db w)
       \<and> segment_translations (db (snd (pull env depth w))) = segment_translations (db w)
       \<and> repo (snd (pull env depth w)) = repo w
       \<and> messages (snd (pull env depth w)) = messages w @ [InfoPullNoChanges]
       \<and> pull env depth w = pull env' depth' w"
  using assms pull_noop [of w env depth] pull_noop [of w env' depth']
  by (simp add: create_sync_log_world)

lemma pull_at_watermark_example:
  "last_commit_id (db example_synced_world) = Some ''a''
   \<and> get_head_commit_id (repo example_synced_world) = ''a''
   \<and> fst (pull (example_env\<lparr>get_changed_files := (\<lambda>r a b. example_changed_files)\<rparr>) (Suc 0)
            example_synced_world) = Inr ()
   \<and> sync_logs (db (snd (pull (example_env\<lparr>get_changed_files := (\<lambda>r a b. example_changed_files)\<rparr>)
                            (Suc 0) example_synced_world)))
       = [\<lparr>log_id = 1, action = ACTION_PULL, commit_id = ''a'', time = 0\<rparr>,
          \<lparr>log_id = 2, action = ACTION_PULL, commit_id = ''a'', time = 1\<rparr>]
   \<and> messages (snd (pull (example_env\<lparr>get_changed_files := (\<lambda>r a b. example_changed_files)\<rparr>)
                       (Suc 0) example_synced_world)) = [InfoPullNoChanges]"
proof -
  have h1: "last_commit_id (db example_synced_world) = Some ''a''"
    by (simp add: example_defs last_commit_id_def order_by_time_desc_def)
  have h2: "get_head_commit_id (repo example_synced_world) = ''a''"
    by (simp add: example_defs get_head_commit_id_def)
  have v: "sync_logs (db example_synced_world)
             = [\<lparr>log_id = 1, action = ACTION_PULL, commit_id = ''a'', time = 0\<rparr>]"
    "clock example_synced_world = 1" "messages example_synced_world = []"
    by (simp_all add: example_defs)
  from pull_at_watermark_is_noop [OF h1 h2,
         of "example_env\<lparr>get_changed_files := (\<lambda>r a b. example_changed_files)\<rparr>" "Suc 0"]
  show ?thesis using h1 h2 v by (simp add: fresh_log_id_def)
qed

subsection \<open>The pull of the management command\<close>

text \<open>
  The older \<^verbatim>\<open>handle_pull\<close> has the same early return, but against the commit id of
  the most recent SyncLog entry of any kind: when that entry records the head, the pull
  adds its own entry and changes nothing else.
\<close>

lemma handle_pull_at_latest_log_is_noop:
  assumes "command_last_commit_id (db w) = Some (get_head_commit_id (repo w))"
  shows "handle_pull env depth w =
           (Inr (), logger_log PrintPullNoChanges
                      (snd (create_sync_log ACTION_PULL (get_head_commit_id (repo w)) w)))"
  using assms
  by (simp add: handle_pull_def handle_pull_body_def transaction_atomic_def create_sync_log_def
        timezone_now_def Let_def get_head_commit_id_def split: prod.splits)

text \<open>
  Claim C1, as the code has it. The claim holds of \<^verbatim>\<open>_pull\<close> and fails of
  \<^verbatim>\<open>handle_pull\<close>, whose comment says that it takes the last commit id that was
  pulled or pushed. After a pull of the commit \<open>a\<close> and a push that was logged with an
  empty commit id, with the head still at \<open>a\<close>: the most recent SyncLog entry with a
  non-empty commit id records \<open>a\<close>, and \<^verbatim>\<open>_pull\<close> returns early; the watermark of
  \<^verbatim>\<open>handle_pull\<close> is the empty commit id of the push, so it asks the repository for
  the changes since then and imports the file again.
\<close>

theorem C1_handle_pull_imports_again:
  "last_commit_id (db example_pushed_world) = Some ''a''
   \<and> get_head_commit_id (repo example_pushed_world) = ''a''
   \<and> command_last_commit_id (db example_pushed_world) = Some []
   \<and> messages (snd (pull (example_env\<lparr>get_changed_files := (\<lambda>r a b. [hd example_changed_files])\<rparr>)
                       (Suc 0) example_pushed_world)) = [InfoPullNoChanges]
   \<and> messages (snd (handle_pull
                       (example_env\<lparr>get_changed_files := (\<lambda>r a b. [hd example_changed_files])\<rparr>)
                       (Suc 0) example_pushed_world)) = [PrintIngestingChanges ''fr/about.po'']
   \<and> segment_translations
        (db (snd (handle_pull
                    (example_env\<lparr>get_changed_files := (\<lambda>r a b. [hd example_changed_files])\<rparr>)
                    (Suc 0) example_pushed_world))) (1, ''fr'')
       = Some \<lparr>tr_text = ''Bonjour'', tr_updated_at = 4\<rparr>"
  by (simp add: example_defs pull_defs Let_def handle_pull_def handle_pull_body_def
        handle_pull_file_def command_last_commit_id_def command_import_changed_entry_def)

subsection \<open>The sync manager's status queries\<close>

text \<open>
  Claim C9. In every world, so also while a sync is running, \<^verbatim>\<open>is_queued\<close> and
  \<^verbatim>\<open>is_running\<close> return \<^verbatim>\<open>False\<close>, and \<^verbatim>\<open>trigger\<close> is \<^verbatim>\<open>sync\<close>, run in the
  caller.
\<close>

theorem C9_status_queries_constant:
  "is_queued w = False \<and> is_running w = False \<and> trigger env depth w = sync env depth w"
  by (simp add: is_queued_def is_running_def trigger_def)

subsection \<open>Merging with the existing file\<close>

lemma update_po_merges:
  assumes "read_file reader f = Inr b" and "pofile_of_bytes b = Inr current_po"
    and "polib_pofile new_po_string = Inr new_po"
  shows "update_po reader f new_po_string wr =
           Inr (write_file f (po_str (new_po\<lparr>metadata := metadata current_po\<rparr>)) wr)"
  using assms
  by (auto simp: update_po_def merge_current_metadata_def pofile_of_bytes_def split: sum.splits)

lemma update_po_missing:
  assumes "reader f = None"
  shows "update_po reader f new_po_string wr = Inr (write_file f new_po_string wr)"
  using assms by (simp add: update_po_def merge_current_metadata_def read_file_def)

lemma pofile_of_bytes_error:
  "pofile_of_bytes b = Inl e \<Longrightarrow> e = UnicodeDecodeError \<or> e = IOError ''Syntax error in po file''"
  by (auto simp: pofile_of_bytes_def decode_utf8_def polib_pofile_def
        split: bytes.splits str.splits)

lemma update_po_unparsable:
  assumes "read_file reader f = Inr b" and "pofile_of_bytes b = Inl e"
  shows "update_po reader f new_po_string wr = Inl e"
  using assms pofile_of_bytes_error [OF assms(2)]
  by (auto simp: update_po_def merge_current_metadata_def pofile_of_bytes_def split: sum.splits)

text \<open>
  Claim C7, as stated, fails: an existing file that cannot be parsed, or that is not
  valid UTF-8, makes \<^verbatim>\<open>update_po\<close> raise, since its handler catches \<^verbatim>\<open>KeyError\<close>
  only.
\<close>

theorem C7_counterexample:
  "update_po [''about.pot'' \<mapsto> Utf8 (OtherText ''not a PO file'')] ''about.pot''
      (PoText (example_po ''Hello'' [])) new_writer = Inl (IOError ''Syntax error in po file'')
   \<and> update_po [''about.pot'' \<mapsto> NotUtf8 [255]] ''about.pot''
      (PoText (example_po ''Hello'' [])) new_writer = Inl UnicodeDecodeError"
  by (simp add: update_po_def merge_current_metadata_def read_file_def decode_utf8_def
        polib_pofile_def)

text \<open>
  Claim C7, amended. If no file exists at the path in the reader's view, the newly
  generated content is written unmodified. If a file exists and parses, and the newly
  generated content parses, the content written is the new content with the metadata
  of the existing file. In these two cases there is no exception. If a file exists and
  cannot be decoded or parsed, the exception of the decoder or of the parser leaves
  \<^verbatim>\<open>update_po\<close> and nothing is written.
\<close>

theorem C7_update_po_cases:
  "(reader f = None \<longrightarrow> update_po reader f new_po_string wr = Inr (write_file f new_po_string wr))
   \<and> (\<forall>b current_po new_po.
         read_file reader f = Inr b \<and> pofile_of_bytes b = Inr current_po
           \<and> polib_pofile new_po_string = Inr new_po \<longrightarrow>
         update_po reader f new_po_string wr =
           Inr (write_file f (po_str (new_po\<lparr>metadata := metadata current_po\<rparr>)) wr))
   \<and> (\<forall>b e. read_file reader f = Inr b \<and> pofile_of_bytes b = Inl e \<longrightarrow>
         update_po reader f new_po_string wr = Inl e)"
  using update_po_missing [of reader f new_po_string wr]
    update_po_merges [of reader f _ _ new_po_string _ wr]
    update_po_unparsable [of reader f _ _ new_po_string wr]
  by blast

theorem C7_witness:
  "Map.empty ''about.pot'' = (None :: bytes option)
   \<and> update_po Map.empty ''about.pot'' (PoText (example_po ''Hello'' [])) new_writer
       = Inr (write_file ''about.pot'' (PoText (example_po ''Hello'' [])) new_writer)
   \<and> read_file [''about.pot'' \<mapsto> Utf8 (PoText \<lparr>metadata = [(''Last-Translator'', ''Alice'')],
                                                 entries = []\<rparr>)] ''about.pot''
       = Inr (Utf8 (PoText \<lparr>metadata = [(''Last-Translator'', ''Alice'')], entries = []\<rparr>))
   \<and> update_po [''about.pot'' \<mapsto> Utf8 (PoText \<lparr>metadata = [(''Last-Translator'', ''Alice'')],
                                                 entries = []\<rparr>)] ''about.pot''
        (PoText (example_po ''Hello'' [])) new_writer
       = Inr (write_file ''about.pot''
                (PoText \<lparr>metadata = [(''Last-Translator'', ''Alice'')],
                         entries = [\<lparr>msgid = ''Hello'', msgstr = []\<rparr>]\<rparr>) new_writer)
   \<and> pofile_of_bytes (NotUtf8 [255]) = Inl UnicodeDecodeError
   \<and> update_po [''about.pot'' \<mapsto> NotUtf8 [255]] ''about.pot''
        (PoText (example_po ''Hello'' [])) new_writer = Inl UnicodeDecodeError"
proof -
  let ?alice = "\<lparr>metadata = [(''Last-Translator'', ''Alice'')], entries = []\<rparr>"
  have a: "Map.empty ''about.pot'' = (None :: bytes option)" by simp
  have b1: "read_file [''about.pot'' \<mapsto> Utf8 (PoText ?alice)] ''about.pot''
              = Inr (Utf8 (PoText ?alice))"
    by (simp add: read_file_def)
  have b2: "pofile_of_bytes (Utf8 (PoText ?alice)) = Inr ?alice"
    by (simp add: pofile_of_bytes_def decode_utf8_def polib_pofile_def)
  have b3: "polib_pofile (PoText (example_po ''Hello'' [])) = Inr (example_po ''Hello'' [])"
    by (simp add: polib_pofile_def)
  have c1: "read_file [''about.pot'' \<mapsto> NotUtf8 [255]] ''about.pot'' = Inr (NotUtf8 [255])"
    by (simp add: read_file_def)
  have c2: "pofile_of_bytes (NotUtf8 [255]) = Inl UnicodeDecodeError"
    by (simp add: pofile_of_bytes_def decode_utf8_def)
  from C7_update_po_cases [of Map.empty "''about.pot''" "PoText (example_po ''Hello'' [])" new_writer]
  have r1: "update_po Map.empty ''about.pot'' (PoText (example_po ''Hello'' [])) new_writer
       = Inr (write_file ''about.pot'' (PoText (example_po ''Hello'' [])) new_writer)"
    using a by blast
  from C7_update_po_cases [of "[''about.pot'' \<mapsto> Utf8 (PoText ?alice)]" "''about.pot''"
         "PoText (example_po ''Hello'' [])" new_writer]
  have r2: "update_po [''about.pot'' \<mapsto> Utf8 (PoText ?alice)] ''about.pot''
        (PoText (example_po ''Hello'' [])) new_writer
       = Inr (write_file ''about.pot''
                (po_str ((example_po ''Hello'' [])\<lparr>metadata := metadata ?alice\<rparr>)) new_writer)"
    using b1 b2 b3 by blast
  from C7_update_po_cases [of "[''about.pot'' \<mapsto> NotUtf8 [255]]" "''about.pot''"
         "PoText (example_po ''Hello'' [])" new_writer]
  have r3: "update_po [''about.pot'' \<mapsto> NotUtf8 [255]] ''about.pot''
        (PoText (example_po ''Hello'' [])) new_writer = Inl UnicodeDecodeError"
    using c1 c2 by blast
  show ?thesis
    using a b1 c2 r1 r2 r3 by (simp add: po_str_def example_po_def)
qed

text \<open>
  Claim C10. When a file exists at the path in the reader's view and parses, and the
  newly generated content parses, \<^verbatim>\<open>update_po\<close> writes a file that parses again; its
  metadata is the metadata of the existing file, its entries are the entries of the
  newly generated content, and so an entry of the existing file that is not an entry of
  the generated content is not in the written file.
\<close>

theorem C10_existing_entries_discarded:
  assumes "read_file reader f = Inr b" and "pofile_of_bytes b = Inr current_po"
    and "polib_pofile new_po_string = Inr new_po"
  shows "\<exists>wr' b' written.
           update_po reader f new_po_string wr = Inr wr'
         \<and> read_file (w_tree wr') f = Inr b' \<and> pofile_of_bytes b' = Inr written
         \<and> metadata written = metadata current_po
         \<and> entries written = entries new_po
         \<and> (\<forall>e. e \<in> set (entries current_po) \<and> e \<notin> set (entries new_po) \<longrightarrow>
                e \<notin> set (entries written))"
  using update_po_merges [OF assms, of wr]
  by (simp add: write_file_def read_file_def pofile_of_bytes_def decode_utf8_def
        polib_pofile_def po_str_def)

theorem C10_witness:
  "read_file [''fr/about.po'' \<mapsto>
       Utf8 (PoText \<lparr>metadata = [(''Last-Translator'', ''Alice'')],
                     entries = [\<lparr>msgid = ''Added by hand'', msgstr = ''Fait main''\<rparr>]\<rparr>)]
     ''fr/about.po''
     = Inr (Utf8 (PoText \<lparr>metadata = [(''Last-Translator'', ''Alice'')],
                          entries = [\<lparr>msgid = ''Added by hand'', msgstr = ''Fait main''\<rparr>]\<rparr>))
   \<and> (\<exists>wr'. update_po [''fr/about.po'' \<mapsto>
                Utf8 (PoText \<lparr>metadata = [(''Last-Translator'', ''Alice'')],
                              entries = [\<lparr>msgid = ''Added by hand'', msgstr = ''Fait main''\<rparr>]\<rparr>)]
              ''fr/about.po'' (PoText (example_po ''Hello'' ''Bonjour'')) new_writer = Inr wr'
          \<and> w_tree wr' ''fr/about.po''
              = Some (Utf8 (PoText \<lparr>metadata = [(''Last-Translator'', ''Alice'')],
                                    entries = [\<lparr>msgid = ''Hello'', msgstr = ''Bonjour''\<rparr>]\<rparr>)))"
proof -
  let ?cur = "\<lparr>metadata = [(''Last-Translator'', ''Alice'')],
               entries = [\<lparr>msgid = ''Added by hand'', msgstr = ''Fait main''\<rparr>]\<rparr>"
  have h1: "read_file [''fr/about.po'' \<mapsto> Utf8 (PoText ?cur)] ''fr/about.po''
              = Inr (Utf8 (PoText ?cur))"
    by (simp add: read_file_def)
  have h2: "pofile_of_bytes (Utf8 (PoText ?cur)) = Inr ?cur"
    by (simp add: pofile_of_bytes_def decode_utf8_def polib_pofile_def)
  have h3: "polib_pofile (PoText (example_po ''Hello'' ''Bonjour'')) = Inr (example_po ''Hello'' ''Bonjour'')"
    by (simp add: polib_pofile_def)
  from C10_existing_entries_discarded [OF h1 h2 h3, of new_writer]
  obtain wr' b' written where
    u: "update_po [''fr/about.po'' \<mapsto> Utf8 (PoText ?cur)] ''fr/about.po''
          (PoText (example_po ''Hello'' ''Bonjour'')) new_writer = Inr wr'"
    and r: "read_file (w_tree wr') ''fr/about.po'' = Inr b'"
    and p: "pofile_of_bytes b' = Inr written"
    and m: "metadata written = metadata ?cur"
    and e: "entries written = entries (example_po ''Hello'' ''Bonjour'')"
    by blast
  from p obtain s where b': "b' = Utf8 (PoText written)"
    by (auto simp: pofile_of_bytes_def decode_utf8_def polib_pofile_def
          split: bytes.splits str.splits)
  from r b' have "w_tree wr' ''fr/about.po'' = Some (Utf8 (PoText written))"
    by (auto simp: read_file_def split: option.splits)
  moreover have "written = \<lparr>metadata = [(''Last-Translator'', ''Alice'')],
                            entries = [\<lparr>msgid = ''Hello'', msgstr = ''Bonjour''\<rparr>]\<rparr>"
    using m e by (cases written) (simp add: example_po_def)
  ultimately show ?thesis using h1 u by simp
qed

subsection \<open>A failing file in a pull\<close>

text \<open>
  Claim C4, as stated, fails. With the first changed file alone the pull succeeds and
  stores the translation. With a second changed file that the catalog does not know, the
  pull raises, and afterwards the translation of the first file is not stored and the
  SyncLog table is empty: the decorator \<^verbatim>\<open>transaction.atomic\<close> of \<^verbatim>\<open>_pull\<close> has taken
  back the whole pull.
\<close>

theorem C4_counterexample:
  "fst (pull (example_env\<lparr>get_changed_files := (\<lambda>r a b. [hd example_changed_files])\<rparr>)
          (Suc 0) example_world) = Inr ()
   \<and> segment_translations
        (db (snd (pull (example_env\<lparr>get_changed_files := (\<lambda>r a b. [hd example_changed_files])\<rparr>)
                    (Suc 0) example_world))) (1, ''fr'')
       = Some \<lparr>tr_text = ''Bonjour'', tr_updated_at = 1\<rparr>
   \<and> fst (pull (example_env\<lparr>get_changed_files := (\<lambda>r a b. example_changed_files)\<rparr>)
          (Suc 0) example_world) = Inl (UnrecognizedFileError ''fr/unknown.po'')
   \<and> segment_translations
        (db (snd (pull (example_env\<lparr>get_changed_files := (\<lambda>r a b. example_changed_files)\<rparr>)
                    (Suc 0) example_world))) (1, ''fr'') = None
   \<and> sync_logs
        (db (snd (pull (example_env\<lparr>get_changed_files := (\<lambda>r a b. example_changed_files)\<rparr>)
                    (Suc 0) example_world))) = []"
  by (simp add: example_defs pull_defs Let_def)

text \<open>
  Claim C4, amended. The whole pull is one transaction. When the processing of one
  changed file \<open>f\<close> raises, after the files \<open>fs1\<close> before it were processed without an
  exception, the pull raises the same exception and the datastore after the pull is the
  datastore before it: the updates of the failing file, the updates already applied for
  the other files, their SyncLogResource rows and the SyncLog entry of the pull are all
  taken back.
\<close>

theorem C4_failing_file_rolls_back_whole_pull:
  assumes "last_commit_id (db w) \<noteq> Some (get_head_commit_id (repo w))"
    and "create_sync_log ACTION_PULL (get_head_commit_id (repo w)) w = (log, w1)"
    and "get_changed_files env (repo w) (last_commit_id (db w)) (get_head_commit_id (repo w))
           = fs1 @ f # fs2"
    and "for_each fs1 (pull_file env depth log) w1 = (Inr (), w2)"
    and "fst (pull_file env depth log f w2) = Inl e"
  shows "fst (pull env depth w) = Inl e \<and> db (snd (pull env depth w)) = db w"
proof -
  have r: "repo w1 = repo w"
    using assms(2) by (auto simp: create_sync_log_def timezone_now_def Let_def)
  obtain w3 where w3: "pull_file env depth log f w2 = (Inl e, w3)"
    using assms(5) by (cases "pull_file env depth log f w2") auto
  have "for_each (fs1 @ f # fs2) (pull_file env depth log) w1 = (Inl e, w3)"
    by (simp add: for_each_append assms(4) w3)
  then have "pull_body env depth w = (Inl e, w3)"
    using assms(1,2,3) r by (simp add: pull_body_def Let_def)
  then show ?thesis
    by (simp add: pull_def transaction_atomic_def)
qed

theorem C4_witness:
  "last_commit_id (db example_world) \<noteq> Some (get_head_commit_id (repo example_world))
   \<and> fst (for_each [hd example_changed_files]
            (pull_file (example_env\<lparr>get_changed_files := (\<lambda>r a b. example_changed_files)\<rparr>) (Suc 0)
               (fst (create_sync_log ACTION_PULL ''a'' example_world)))
            (snd (create_sync_log ACTION_PULL ''a'' example_world))) = Inr ()
   \<and> fst (pull (example_env\<lparr>get_changed_files := (\<lambda>r a b. example_changed_files)\<rparr>)
            (Suc 0) example_world) = Inl (UnrecognizedFileError ''fr/unknown.po'')
   \<and> db (snd (pull (example_env\<lparr>get_changed_files := (\<lambda>r a b. example_changed_files)\<rparr>)
                 (Suc 0) example_world)) = db example_world"
proof -
  let ?env = "example_env\<lparr>get_changed_files := (\<lambda>r a b. example_changed_files)\<rparr>"
  let ?log = "fst (create_sync_log ACTION_PULL ''a'' example_world)"
  let ?w1 = "snd (create_sync_log ACTION_PULL ''a'' example_world)"
  let ?f1 = "hd example_changed_files"
  let ?f2 = "(''fr/unknown.po'', Utf8 (PoText (example_po ''Bye'' [])),
              Utf8 (PoText (example_po ''Bye'' ''Au revoir'')))"
  let ?w2 = "snd (for_each [?f1] (pull_file ?env (Suc 0) ?log) ?w1)"
  have hd: "get_head_commit_id (repo example_world) = ''a''"
    by (simp add: example_defs get_head_commit_id_def)
  have h1: "last_commit_id (db example_world) \<noteq> Some (get_head_commit_id (repo example_world))"
    by (simp add: example_defs last_commit_id_def order_by_time_desc_def)
  have h2: "create_sync_log ACTION_PULL (get_head_commit_id (repo example_world)) example_world
              = (?log, ?w1)"
    by (simp add: hd)
  have h3: "get_changed_files ?env (repo example_world) (last_commit_id (db example_world))
              (get_head_commit_id (repo example_world)) = [?f1] @ ?f2 # []"
    by (simp add: example_defs)
  have ok: "fst (for_each [?f1] (pull_file ?env (Suc 0) ?log) ?w1) = Inr ()"
    by (simp add: example_defs pull_defs Let_def)
  then have h4: "for_each [?f1] (pull_file ?env (Suc 0) ?log) ?w1 = (Inr (), ?w2)"
    by (metis prod.collapse)
  have h5: "fst (pull_file ?env (Suc 0) ?log ?f2 ?w2) = Inl (UnrecognizedFileError ''fr/unknown.po'')"
    by (simp add: pull_file_def example_env_def Let_def)
  from C4_failing_file_rolls_back_whole_pull [OF h1 h2 h3 h4 h5]
  show ?thesis using h1 ok by simp
qed

subsection \<open>The push to the remote\<close>

lemma write_submissions_ids:
  "write_submissions env d reader langs subs (wr, paths, ids) = Inr (wr', paths', ids')
   \<Longrightarrow> ids' = ids @ map sub_id subs"
proof (induction subs arbitrary: wr paths ids)
  case Nil
  then show ?case by simp
next
  case (Cons s subs)
  from Cons.prems obtain wr2 where
    "write_submissions env d reader langs subs
       (wr2, paths @ [(get_po_filename env d (sub_resource s) None,
                       get_locale_po_filename_template env d (sub_resource s))],
        ids @ [sub_id s]) = Inr (wr', paths', ids')"
    by (auto split: sum.splits)
  from Cons.IH [OF this] show ?case by simp
qed

lemma finalize_push_noop:
  "pushed_submissions (db w) ids = [] \<Longrightarrow>
   finalize_push env wr ids w = logger_log InfoPushNoChanges w"
  by (simp add: finalize_push_def)

lemma fold_create_sync_log_resource_repo [simp]:
  "repo (fold (\<lambda>r. create_sync_log_resource l r None) rs w) = repo w"
  by (induction rs arbitrary: w) (simp_all add: create_sync_log_resource_def)

lemma finalize_push_ops:
  assumes "pushed_submissions (db w) ids \<noteq> []"
  shows "ops (repo (finalize_push env wr ids w)) =
           ops (repo w) @ (if has_changes env wr (tree (repo w))
                           then [OpCommit ''Updates to source content''] else []) @ [OpPush]"
  using assms
  by (simp add: finalize_push_def create_sync_log_def timezone_now_def Let_def
        update_pushed_submissions_def save_commit_id_def writer_commit_def Repository_push_def
        split: prod.splits)

lemma push_returns:
  assumes "push env w = (Inr (), w')"
  shows "\<exists>writer. w' = finalize_push env writer (map sub_id (current_submissions (db w))) w"
proof -
  let ?wr0 = "copy_unmanaged_files env (tree (repo w)) new_writer"
  from assms obtain wr1 paths ids where
    ws: "write_submissions env (db w) (tree (repo w)) (active_languages env (db w))
           (current_submissions (db w)) (?wr0, [], []) = Inr (wr1, paths, ids)"
    and w': "w' = finalize_push env
               (write_config (map (as_rfc5646_language_tag env) (active_languages env (db w)))
                  paths wr1) ids w"
    by (auto simp: push_def push_body_def transaction_atomic_def Let_def
          split: sum.splits prod.splits)
  have "ids = map sub_id (current_submissions (db w))"
    using write_submissions_ids [OF ws] by simp
  with w' show ?thesis by blast
qed

text \<open>
  Claim C8, as stated, fails: a push cycle with no submission at all returns without
  invoking \<^verbatim>\<open>repository.push()\<close>; no operation on the repository is recorded.
\<close>

theorem C8_counterexample:
  "fst (push example_env (example_world\<lparr>db := example_db\<lparr>submissions := []\<rparr>\<rparr>)) = Inr ()
   \<and> ops (repo (snd (push example_env (example_world\<lparr>db := example_db\<lparr>submissions := []\<rparr>\<rparr>)))) = []"
  by (simp add: example_defs push_def push_body_def transaction_atomic_def Let_def
        current_submissions_def finalize_push_def pushed_submissions_def logger_log_def)

lemma push_that_returns:
  assumes "push env w = (Inr (), w')"
  shows "(pushed_submissions (db w) (map sub_id (current_submissions (db w))) \<noteq> [] \<longrightarrow>
            (\<exists>writer. ops (repo w') =
               ops (repo w) @ (if has_changes env writer (tree (repo w))
                               then [OpCommit ''Updates to source content''] else []) @ [OpPush]))
       \<and> (pushed_submissions (db w) (map sub_id (current_submissions (db w))) = [] \<longrightarrow>
            repo w' = repo w \<and> db w' = db w \<and> messages w' = messages w @ [InfoPushNoChanges])"
proof -
  from push_returns [OF assms] obtain writer where
    w': "w' = finalize_push env writer (map sub_id (current_submissions (db w))) w"
    by blast
  show ?thesis
    using finalize_push_noop [of w "map sub_id (current_submissions (db w))" env writer]
      finalize_push_ops [of w "map sub_id (current_submissions (db w))" env writer]
    unfolding w' by auto
qed

lemma push_that_raises:
  assumes "push env w = (Inl e, w')"
  shows "w' = w"
proof -
  obtain r w0 where b: "push_body env w = (r, w0)"
    by (cases "push_body env w")
  with assms obtain e' where "r = Inl e'"
    by (cases r) (auto simp: push_def transaction_atomic_def)
  with b have "w0 = w"
    by (auto simp: push_body_def Let_def split: sum.splits prod.splits)
  with assms b \<open>r = Inl e'\<close> show ?thesis
    by (auto simp: push_def transaction_atomic_def)
qed

text \<open>
  Claim C8, amended. A push cycle that returns, and in which at least one of the
  current submissions has never been pushed, ends by invoking \<^verbatim>\<open>repository.push()\<close>,
  after a commit when the writer has changes and with no commit when it has none. A push
  cycle that returns and in which no current submission is unpushed (so also one with no
  submission at all) leaves the repository and the datastore as they were: no commit,
  no PUSH log entry, and no \<^verbatim>\<open>repository.push()\<close>. A push cycle that raises (an
  existing file that cannot be decoded or parsed stops \<^verbatim>\<open>update_po\<close>) leaves the
  world as it was: no commit, no PUSH log entry, and no \<^verbatim>\<open>repository.push()\<close>.
\<close>

theorem C8_remote_push_only_with_new_submissions:
  "(\<forall>w'. push env w = (Inr (), w') \<longrightarrow>
      (pushed_submissions (db w) (map sub_id (current_submissions (db w))) \<noteq> [] \<longrightarrow>
         (\<exists>writer. ops (repo w') =
            ops (repo w) @ (if has_changes env writer (tree (repo w))
                            then [OpCommit ''Updates to source content''] else []) @ [OpPush]))
    \<and> (pushed_submissions (db w) (map sub_id (current_submissions (db w))) = [] \<longrightarrow>
         repo w' = repo w \<and> db w' = db w \<and> messages w' = messages w @ [InfoPushNoChanges]))
   \<and> (\<forall>e w'. push env w = (Inl e, w') \<longrightarrow> w' = w)"
  using push_that_returns [of env w] push_that_raises [of env w] by blast

theorem C8_witness:
  "fst (push (example_env\<lparr>has_changes := (\<lambda>wr t. False)\<rparr>) example_world) = Inr ()
   \<and> pushed_submissions (db example_world) (map sub_id (current_submissions (db example_world))) \<noteq> []
   \<and> ops (repo (snd (push (example_env\<lparr>has_changes := (\<lambda>wr t. False)\<rparr>) example_world))) = [OpPush]
   \<and> fst (push example_env example_synced_world) = Inr ()
   \<and> ops (repo (snd (push example_env example_synced_world)))
       = [OpCommit ''Updates to source content'', OpPush]
   \<and> fst (push example_env (example_world\<lparr>db := example_db\<lparr>submissions := []\<rparr>\<rparr>)) = Inr ()
   \<and> repo (snd (push example_env (example_world\<lparr>db := example_db\<lparr>submissions := []\<rparr>\<rparr>)))
       = repo (example_world\<lparr>db := example_db\<lparr>submissions := []\<rparr>\<rparr>)
   \<and> fst (push example_env example_world_with_bad_file) = Inl UnicodeDecodeError
   \<and> pushed_submissions (db example_world_with_bad_file)
        (map sub_id (current_submissions (db example_world_with_bad_file))) \<noteq> []
   \<and> ops (repo (snd (push example_env example_world_with_bad_file))) = []"
proof -
  let ?env = "example_env\<lparr>has_changes := (\<lambda>wr t. False)\<rparr>"
  let ?w0 = "example_world\<lparr>db := example_db\<lparr>submissions := []\<rparr>\<rparr>"
  let ?wb = "example_world_with_bad_file"
  have cur: "current_submissions (db example_world) = submissions example_db"
    "current_submissions (db example_synced_world) = submissions example_db"
    "current_submissions (db ?w0) = []"
    "current_submissions (db ?wb) = submissions example_db"
    by (simp_all add: example_defs current_submissions_def is_current_def)
  have sel: "pushed_submissions (db example_world) (map sub_id (current_submissions (db example_world))) \<noteq> []"
    "pushed_submissions (db example_synced_world) (map sub_id (current_submissions (db example_synced_world))) \<noteq> []"
    "pushed_submissions (db ?w0) (map sub_id (current_submissions (db ?w0))) = []"
    "pushed_submissions (db ?wb) (map sub_id (current_submissions (db ?wb))) \<noteq> []"
    unfolding cur by (simp_all add: example_defs pushed_submissions_def is_pushed_submission_def)
  have a1: "fst (push ?env example_world) = Inr ()"
    by (simp add: example_defs push_def push_body_def transaction_atomic_def Let_def
          current_submissions_def is_current_def update_po_def merge_current_metadata_def
          read_file_def split: sum.splits)
  have a2: "fst (push example_env example_synced_world) = Inr ()"
    by (simp add: example_defs push_def push_body_def transaction_atomic_def Let_def
          current_submissions_def is_current_def update_po_def merge_current_metadata_def
          read_file_def split: sum.splits)
  have a3: "fst (push example_env ?w0) = Inr ()"
    by (simp add: example_defs push_def push_body_def transaction_atomic_def Let_def
          current_submissions_def)
  have a4: "fst (push example_env ?wb) = Inl UnicodeDecodeError"
    by (simp add: example_defs push_def push_body_def transaction_atomic_def Let_def
          current_submissions_def is_current_def update_po_def merge_current_metadata_def
          read_file_def decode_utf8_def copy_unmanaged_files_def new_writer_def)
  have p1: "push ?env example_world = (Inr (), snd (push ?env example_world))"
    using a1 by (metis prod.collapse)
  have p2: "push example_env example_synced_world = (Inr (), snd (push example_env example_synced_world))"
    using a2 by (metis prod.collapse)
  have p3: "push example_env ?w0 = (Inr (), snd (push example_env ?w0))"
    using a3 by (metis prod.collapse)
  have p4: "push example_env ?wb = (Inl UnicodeDecodeError, snd (push example_env ?wb))"
    using a4 by (metis prod.collapse)
  have o: "ops (repo example_world) = []" "ops (repo example_synced_world) = []"
    "ops (repo ?wb) = []"
    by (simp_all add: example_defs)
  from C8_remote_push_only_with_new_submissions [of ?env example_world] p1 sel(1)
  have r1: "ops (repo (snd (push ?env example_world))) = [OpPush]"
    by (auto simp: o)
  from C8_remote_push_only_with_new_submissions [of example_env example_synced_world] p2 sel(2)
  have r2: "ops (repo (snd (push example_env example_synced_world)))
              = [OpCommit ''Updates to source content'', OpPush]"
    by (auto simp: o example_env_def)
  from C8_remote_push_only_with_new_submissions [of example_env ?w0] p3 sel(3)
  have r3: "repo (snd (push example_env ?w0)) = repo ?w0"
    by blast
  from C8_remote_push_only_with_new_submissions [of example_env ?wb] p4
  have "snd (push example_env ?wb) = ?wb"
    by blast
  then have r4: "ops (repo (snd (push example_env ?wb))) = []"
    using o(3) by simp
  show ?thesis using a1 a2 a3 a4 sel(1) sel(4) r1 r2 r3 r4 by simp
qed

subsection \<open>The most recent log entry\<close>

lemma insort_key_snoc:
  "f x \<le> f l \<Longrightarrow> insort_key f x (ys @ [l]) = insort_key f x ys @ [l]"
  by (induction ys) simp_all

lemma sort_key_snoc:
  "\<forall>y \<in> set ys. f y \<le> f l \<Longrightarrow> sort_key f (ys @ [l]) = sort_key f ys @ [l]"
  by (induction ys) (simp_all add: insort_key_snoc)

lemma last_commit_id_snoc:
  assumes "sync_logs d' = logs @ [l]" and "commit_id l \<noteq> []"
    and "\<forall>y \<in> set logs. time y \<le> time l"
  shows "last_commit_id d' = Some (commit_id l)"
  using assms by (simp add: last_commit_id_def order_by_time_desc_def sort_key_snoc)

lemma last_commit_id_snoc_empty:
  assumes "sync_logs d' = sync_logs d @ [l]" and "commit_id l = []"
  shows "last_commit_id d' = last_commit_id d"
proof -
  have "filter (\<lambda>l. commit_id l \<noteq> []) (sort_key time (sync_logs d @ [l]))
          = filter (\<lambda>l. commit_id l \<noteq> []) (sort_key time (sync_logs d))"
    using assms(2) by (simp add: filter_sort)
  then show ?thesis
    using assms(1)
    by (simp add: last_commit_id_def order_by_time_desc_def rev_filter [symmetric])
qed

lemma last_commit_id_cong:
  "sync_logs d' = sync_logs d \<Longrightarrow> last_commit_id d' = last_commit_id d"
  by (simp add: last_commit_id_def)

subsection \<open>What a pull leaves as it was\<close>

lemma keeps_log_refl [simp]: "keeps_log w w"
  by (simp add: keeps_log_def)

lemma keeps_log_trans: "keeps_log w w' \<Longrightarrow> keeps_log w' w'' \<Longrightarrow> keeps_log w w''"
  by (simp add: keeps_log_def)

lemma keeps_log_logger [simp]: "keeps_log w (logger_log m w)"
  by (simp add: keeps_log_def)

lemma for_each_keeps_log:
  assumes "\<And>x w. keeps_log w (snd (body x w))"
  shows "keeps_log w (snd (for_each xs body w))"
proof (induction xs arbitrary: w)
  case Nil
  show ?case by simp
next
  case (Cons x xs)
  show ?case
  proof (cases "body x w")
    case (Pair r w')
    have step: "keeps_log w w'" using assms [of w x] Pair by simp
    show ?thesis
    proof (cases r)
      case (Inl e)
      with Pair step show ?thesis by simp
    next
      case (Inr u)
      with Pair have "for_each (x # xs) body w = for_each xs body w'" by simp
      with keeps_log_trans [OF step Cons.IH [of w']] show ?thesis by simp
    qed
  qed
qed

lemma import_changed_entry_keeps_log:
  "keeps_log w (snd (import_changed_entry language e w))"
  by (auto simp: import_changed_entry_def timezone_now_def save_translation_def keeps_log_def
        Segment_objects_DoesNotExist_def split: option.splits)

lemma try_create_or_update_keeps_log:
  assumes "leaves_log_alone env"
  shows "keeps_log w (snd (try_create_or_update_translated_page env r s l w))"
proof -
  obtain res d where c: "create_or_update_translated_page env (db w) s l = (res, d)"
    by (cases "create_or_update_translated_page env (db w) s l")
  have "sync_logs d = sync_logs (db w)"
    using assms c unfolding leaves_log_alone_def by (metis snd_conv)
  then show ?thesis
    using c
    by (auto simp: try_create_or_update_translated_page_def keeps_log_def
          split: sum.splits error.splits prod.splits)
qed

lemma try_update_keeps_log:
  assumes "leaves_log_alone env"
  shows "keeps_log w (snd (try_update_resource_translation env depth r l w))"
proof (induction depth arbitrary: r w)
  case 0
  show ?case by simp
next
  case (Suc depth)
  show ?case
  proof (cases "find_translatable_submission env (db w) r l")
    case None
    then show ?thesis by simp
  next
    case (Some s)
    let ?w1 = "logger_log (InfoSavingTranslatedPage r l) w"
    obtain res w2 where t: "try_create_or_update_translated_page env r s l ?w1 = (res, w2)"
      by (cases "try_create_or_update_translated_page env r s l ?w1")
    have k2: "keeps_log w w2"
      using keeps_log_trans [OF keeps_log_logger
              try_create_or_update_keeps_log [OF assms, of ?w1 r s l]] t
      by simp
    have loop: "keeps_log w2
        (snd (for_each xs (\<lambda>child w'. try_update_resource_translation env depth child l w') w2))"
      for xs
      by (rule for_each_keeps_log) (rule Suc.IH)
    show ?thesis
      using Some t k2 keeps_log_trans [OF k2 loop]
      by (auto split: sum.splits option.splits prod.splits)
  qed
qed

lemma transaction_atomic_keeps_log:
  assumes "keeps_log w (snd (body w))"
  shows "keeps_log w (snd (transaction_atomic body w))"
  using assms
  by (auto simp: transaction_atomic_def keeps_log_def split: prod.splits sum.splits)

lemma pull_file_keeps_log:
  assumes "leaves_log_alone env"
  shows "keeps_log w (snd (pull_file env depth log f w))"
proof -
  obtain filename old_content new_content where f: "f = (filename, old_content, new_content)"
    by (cases f)
  have block: "keeps_log w2
      (snd (transaction_atomic
              (\<lambda>w3. case for_each es (import_changed_entry language) w3 of
                       (Inl e, w4) \<Rightarrow> (Inl e, w4)
                     | (Inr u, w4) \<Rightarrow> try_update_resource_translation env depth r language w4)
              w2))" for w2 es language r
  proof (rule transaction_atomic_keeps_log)
    obtain res w4 where fe: "for_each es (import_changed_entry language) w2 = (res, w4)"
      by (cases "for_each es (import_changed_entry language) w2")
    have k4: "keeps_log w2 w4"
      using for_each_keeps_log [of "import_changed_entry language" w2 es,
              OF import_changed_entry_keeps_log] fe by simp
    show "keeps_log w2
        (snd (case for_each es (import_changed_entry language) w2 of
                (Inl e, w4) \<Rightarrow> (Inl e, w4)
              | (Inr u, w4) \<Rightarrow> try_update_resource_translation env depth r language w4))"
      using fe k4 keeps_log_trans [OF k4 try_update_keeps_log [OF assms, of w4 depth r language]]
      by (auto split: sum.splits)
  qed
  have slr: "keeps_log w0 (create_sync_log_resource i r lo w0)" for w0 i r lo
    by (simp add: create_sync_log_resource_def keeps_log_def)
  show ?thesis
    unfolding f pull_file_def Let_def
    using keeps_log_trans [OF keeps_log_logger slr]
      keeps_log_trans [OF keeps_log_trans [OF keeps_log_logger slr] block]
    by (auto split: sum.splits prod.splits)
qed

lemma pull_returns:
  assumes "pull env depth w = (Inr (), w')" and "leaves_log_alone env"
  shows "sync_logs (db w') = sync_logs (db w) @
           [\<lparr>log_id = fresh_log_id (sync_logs (db w)), action = ACTION_PULL,
             commit_id = head_commit_id (repo w), time = clock w\<rparr>]
       \<and> repo w' = repo w \<and> clock w < clock w'"
proof -
  obtain log w1 where c: "create_sync_log ACTION_PULL (get_head_commit_id (repo w)) w = (log, w1)"
    by (cases "create_sync_log ACTION_PULL (get_head_commit_id (repo w)) w")
  have w1: "w1 = snd (create_sync_log ACTION_PULL (get_head_commit_id (repo w)) w)"
    using c by simp
  have loop: "keeps_log w1 (snd (for_each fs (pull_file env depth log) w1))" for fs
    by (rule for_each_keeps_log) (rule pull_file_keeps_log [OF assms(2)])
  have "keeps_log w1 (snd (pull_body env depth w))"
    using loop by (simp add: pull_body_def Let_def c)
  moreover have "snd (pull_body env depth w) = w'"
    using assms(1) by (auto simp: pull_def transaction_atomic_def split: prod.splits sum.splits)
  ultimately have "keeps_log w1 w'" by simp
  then show ?thesis
    unfolding w1 by (simp add: keeps_log_def create_sync_log_world get_head_commit_id_def)
qed

subsection \<open>What a push leaves behind\<close>

lemma fold_create_sync_log_resource_world:
  "fold (\<lambda>r. create_sync_log_resource i r None) rs w =
     w\<lparr>db := (db w)\<lparr>sync_log_resources := sync_log_resources (db w) @
            map (\<lambda>r. \<lparr>slr_log = i, slr_resource = r, slr_language = None\<rparr>) rs\<rparr>\<rparr>"
  by (induction rs arbitrary: w) (simp_all add: create_sync_log_resource_def)

lemma finalize_push_sync_logs:
  assumes "pushed_submissions (db w) ids \<noteq> []"
  shows "sync_logs (db (finalize_push env wr ids w)) =
           (if has_changes env wr (tree (repo w))
            then map (\<lambda>l. if log_id l = fresh_log_id (sync_logs (db w))
                           then l\<lparr>commit_id :=
                                  new_commit_id env (repo w) wr ''Updates to source content''\<rparr>
                           else l) (sync_logs (db w))
                 @ [\<lparr>log_id = fresh_log_id (sync_logs (db w)), action = ACTION_PUSH,
                     commit_id = new_commit_id env (repo w) wr ''Updates to source content'',
                     time = clock w\<rparr>]
            else sync_logs (db w) @
                 [\<lparr>log_id = fresh_log_id (sync_logs (db w)), action = ACTION_PUSH,
                   commit_id = [], time = clock w\<rparr>])"
  using assms
  by (simp add: finalize_push_def create_sync_log_def timezone_now_def Let_def
        fold_create_sync_log_resource_world update_pushed_submissions_def save_commit_id_def
        writer_commit_def get_head_commit_id_def)

lemma finalize_push_submissions:
  assumes "pushed_submissions (db w) ids \<noteq> []"
  shows "submissions (db (finalize_push env wr ids w)) =
           map (\<lambda>s. if is_pushed_submission ids s
                     then s\<lparr>pushed_at := Some (Suc (clock w)),
                            push_log := Some (fresh_log_id (sync_logs (db w)))\<rparr>
                     else s) (submissions (db w))
       \<and> resources (db (finalize_push env wr ids w)) = resources (db w)"
  using assms
  by (simp add: finalize_push_def create_sync_log_def timezone_now_def Let_def
        fold_create_sync_log_resource_world update_pushed_submissions_def save_commit_id_def)

lemma finalize_push_repo:
  assumes "pushed_submissions (db w) ids \<noteq> []"
  shows "repo (finalize_push env wr ids w) =
           Repository_push
             (if has_changes env wr (tree (repo w))
              then writer_commit env wr ''Updates to source content'' (repo w) else repo w)"
  using assms
  by (simp add: finalize_push_def create_sync_log_def timezone_now_def Let_def
        fold_create_sync_log_resource_world update_pushed_submissions_def save_commit_id_def)

lemma set_current_submissions:
  "set (current_submissions d) = {s \<in> set (submissions d). is_current d s}"
  by (simp add: current_submissions_def)

lemma pushed_current_cong:
  assumes "submissions d' = submissions d" and "resources d' = resources d"
  shows "pushed_submissions d' (map sub_id (current_submissions d')) =
         pushed_submissions d (map sub_id (current_submissions d))"
proof -
  have "is_current d' = is_current d"
    using assms(2) by (intro ext) (simp add: is_current_def)
  moreover have "resource_path d' = resource_path d"
    using assms(2) by (intro ext) (simp add: resource_path_def)
  ultimately show ?thesis
    using assms(1) by (simp add: pushed_submissions_def current_submissions_def)
qed

lemma nothing_left_to_push:
  assumes subs: "submissions d' =
           map (\<lambda>s. if is_pushed_submission ids s
                     then s\<lparr>pushed_at := Some n, push_log := Some i\<rparr> else s) (submissions d)"
    and res: "resources d' = resources d"
    and ids: "ids = map sub_id (current_submissions d)"
  shows "pushed_submissions d' (map sub_id (current_submissions d')) = []"
proof -
  let ?upd = "\<lambda>s. if is_pushed_submission ids s
                   then s\<lparr>pushed_at := Some n, push_log := Some i\<rparr> else s"
  have id: "sub_id (?upd s) = sub_id s" for s by simp
  have cur: "is_current d' (?upd s) = is_current d s" for s
    by (auto simp: is_current_def res split: option.splits)
  have "sub_id ` set (current_submissions d') = sub_id ` set (current_submissions d)"
  proof (intro set_eqI iffI)
    fix x assume "x \<in> sub_id ` set (current_submissions d')"
    then obtain s where "s \<in> set (submissions d)" "is_current d' (?upd s)" "x = sub_id (?upd s)"
      unfolding set_current_submissions subs by auto
    then show "x \<in> sub_id ` set (current_submissions d)"
      unfolding set_current_submissions cur id by blast
  next
    fix x assume "x \<in> sub_id ` set (current_submissions d)"
    then obtain s where s: "s \<in> set (submissions d)" "is_current d s" "x = sub_id s"
      unfolding set_current_submissions by auto
    have "?upd s \<in> set (submissions d')" using s(1) unfolding subs by (simp del: if_split)
    moreover have "is_current d' (?upd s)" using s(2) cur by blast
    moreover have "x = sub_id (?upd s)" using s(3) id by simp
    ultimately show "x \<in> sub_id ` set (current_submissions d')"
      unfolding set_current_submissions by blast
  qed
  then have same: "set (map sub_id (current_submissions d')) = set ids"
    by (simp add: ids)
  have "\<not> is_pushed_submission (map sub_id (current_submissions d')) s'"
    if "s' \<in> set (submissions d')" for s'
  proof -
    from that have "s' \<in> ?upd ` set (submissions d)"
      unfolding subs by (simp only: set_map)
    then obtain s where "s' = ?upd s" by blast
    then show ?thesis
      unfolding is_pushed_submission_def same by (simp add: is_pushed_submission_def)
  qed
  then show ?thesis
    by (simp add: pushed_submissions_def filter_empty_conv)
qed

lemma finalize_push_in_sync:
  assumes wm: "last_commit_id (db w) = Some (head_commit_id (repo w))"
    and rem: "remote_head (repo w) = head_commit_id (repo w)"
    and past: "\<forall>l \<in> set (sync_logs (db w)). time l \<le> clock w"
    and ids_ne: "\<forall>r wr m. new_commit_id env r wr m \<noteq> []"
  shows "in_sync (finalize_push env wr (map sub_id (current_submissions (db w))) w)"
proof (cases "pushed_submissions (db w) (map sub_id (current_submissions (db w))) = []")
  case True
  then show ?thesis
    using wm rem by (simp add: finalize_push_noop in_sync_def)
next
  case False
  let ?ids = "map sub_id (current_submissions (db w))"
  let ?w' = "finalize_push env wr ?ids w"
  let ?c = "new_commit_id env (repo w) wr ''Updates to source content''"
  have left: "pushed_submissions (db ?w') (map sub_id (current_submissions (db ?w'))) = []"
    using finalize_push_submissions [OF False, of env wr]
    by (intro nothing_left_to_push [where d = "db w" and ids = ?ids
               and n = "Suc (clock w)" and i = "fresh_log_id (sync_logs (db w))"]) simp_all
  have remote: "remote_head (repo ?w') = head_commit_id (repo ?w')"
    by (simp add: finalize_push_repo [OF False] Repository_push_def)
  have watermark: "last_commit_id (db ?w') = Some (head_commit_id (repo ?w'))"
  proof (cases "has_changes env wr (tree (repo w))")
    case True
    have h: "head_commit_id (repo ?w') = ?c"
      using True by (simp add: finalize_push_repo [OF False] Repository_push_def writer_commit_def)
    let ?l = "\<lparr>log_id = fresh_log_id (sync_logs (db w)), action = ACTION_PUSH,
                commit_id = ?c, time = clock w\<rparr>"
    let ?logs = "map (\<lambda>l. if log_id l = fresh_log_id (sync_logs (db w))
                          then l\<lparr>commit_id := ?c\<rparr> else l) (sync_logs (db w))"
    have sl: "sync_logs (db ?w') = ?logs @ [?l]"
      using finalize_push_sync_logs [OF False, of env wr] True by simp
    have "last_commit_id (db ?w') = Some (commit_id ?l)"
    proof (rule last_commit_id_snoc [OF sl])
      show "commit_id ?l \<noteq> []" using ids_ne by simp
      show "\<forall>y \<in> set ?logs. time y \<le> time ?l" using past by auto
    qed
    with h show ?thesis by simp
  next
    case no: False
    have h: "head_commit_id (repo ?w') = head_commit_id (repo w)"
      using no by (simp add: finalize_push_repo [OF False] Repository_push_def)
    let ?l = "\<lparr>log_id = fresh_log_id (sync_logs (db w)), action = ACTION_PUSH,
                commit_id = [], time = clock w\<rparr>"
    have sl: "sync_logs (db ?w') = sync_logs (db w) @ [?l]"
      using finalize_push_sync_logs [OF False, of env wr] no by simp
    have "last_commit_id (db ?w') = last_commit_id (db w)"
      by (rule last_commit_id_snoc_empty [OF sl]) simp
    with h wm show ?thesis by simp
  qed
  show ?thesis
    using left remote watermark by (simp add: in_sync_def)
qed

subsection \<open>Two syncs in succession\<close>

lemma first_sync_in_sync:
  assumes s: "sync env depth w = (Inr (), w1)"
    and head_ne: "remote_head (repo w) \<noteq> []"
    and ids_ne: "\<forall>r wr m. new_commit_id env r wr m \<noteq> []"
    and alone: "leaves_log_alone env"
    and past: "\<forall>l \<in> set (sync_logs (db w)). time l < clock w"
  shows "in_sync w1"
proof -
  let ?w2 = "(logger_log InfoPullingRepository w)
               \<lparr>repo := Repository_pull (repo (logger_log InfoPullingRepository w))\<rparr>"
  from s obtain w3 w4 where
    p1: "pull env depth ?w2 = (Inr (), w3)" and p2: "push env w3 = (Inr (), w4)"
    and w1: "w1 = logger_log InfoFinished w4"
    by (auto simp: sync_def Let_def split: prod.splits sum.splits)
  have head2: "head_commit_id (repo ?w2) = remote_head (repo w)"
    "remote_head (repo ?w2) = remote_head (repo w)"
    by (simp_all add: Repository_pull_def)
  from pull_returns [OF p1 alone]
  have logs3: "sync_logs (db w3) = sync_logs (db ?w2) @
           [\<lparr>log_id = fresh_log_id (sync_logs (db ?w2)), action = ACTION_PULL,
             commit_id = head_commit_id (repo ?w2), time = clock ?w2\<rparr>]"
    and repo3: "repo w3 = repo ?w2" and clock3: "clock ?w2 < clock w3"
    by blast+
  have wm3: "last_commit_id (db w3) = Some (head_commit_id (repo w3))"
  proof -
    let ?l = "\<lparr>log_id = fresh_log_id (sync_logs (db ?w2)), action = ACTION_PULL,
                commit_id = head_commit_id (repo ?w2), time = clock ?w2\<rparr>"
    have "last_commit_id (db w3) = Some (commit_id ?l)"
    proof (rule last_commit_id_snoc [OF logs3])
      show "commit_id ?l \<noteq> []" using head_ne head2 by simp
      show "\<forall>y \<in> set (sync_logs (db ?w2)). time y \<le> time ?l"
        using past by (auto intro: less_imp_le)
    qed
    then show ?thesis by (simp add: repo3)
  qed
  have rem3: "remote_head (repo w3) = head_commit_id (repo w3)"
    unfolding repo3 using head2 by simp
  have past3: "\<forall>l \<in> set (sync_logs (db w3)). time l \<le> clock w3"
    using logs3 past clock3 by auto
  from push_returns [OF p2] obtain writer where
    "w4 = finalize_push env writer (map sub_id (current_submissions (db w3))) w3"
    by blast
  with finalize_push_in_sync [OF wm3 rem3 past3 ids_ne] have "in_sync w4" by simp
  then show ?thesis by (simp add: w1 in_sync_def)
qed

lemma push_with_nothing_to_push:
  assumes "pushed_submissions (db w) (map sub_id (current_submissions (db w))) = []"
  shows "db (snd (push env w)) = db w \<and> repo (snd (push env w)) = repo w"
proof (cases "push_body env w")
  case (Pair r w')
  show ?thesis
  proof (cases r)
    case (Inl e)
    with Pair have "w' = w"
      by (auto simp: push_body_def Let_def split: sum.splits prod.splits)
    with Pair Inl show ?thesis by (simp add: push_def transaction_atomic_def)
  next
    case (Inr u)
    with Pair have p: "push env w = (Inr (), w')"
      by (simp add: push_def transaction_atomic_def)
    from push_returns [OF p] obtain writer where
      "w' = finalize_push env writer (map sub_id (current_submissions (db w))) w"
      by blast
    with assms have "w' = logger_log InfoPushNoChanges w"
      by (simp add: finalize_push_noop)
    with p show ?thesis by simp
  qed
qed

lemma sync_when_in_sync:
  assumes "in_sync w"
  shows "db (snd (sync env depth w)) =
           (db w)\<lparr>sync_logs := sync_logs (db w) @
              [\<lparr>log_id = fresh_log_id (sync_logs (db w)), action = ACTION_PULL,
                commit_id = head_commit_id (repo w), time = clock w\<rparr>]\<rparr>
       \<and> ops (repo (snd (sync env depth w))) = ops (repo w) @ [OpPull]"
proof -
  let ?w2 = "(logger_log InfoPullingRepository w)
               \<lparr>repo := Repository_pull (repo (logger_log InfoPullingRepository w))\<rparr>"
  let ?log = "\<lparr>log_id = fresh_log_id (sync_logs (db w)), action = ACTION_PULL,
                commit_id = head_commit_id (repo w), time = clock w\<rparr>"
  have head2: "get_head_commit_id (repo ?w2) = head_commit_id (repo w)"
    using assms by (simp add: in_sync_def Repository_pull_def get_head_commit_id_def)
  have wm2: "last_commit_id (db ?w2) = Some (get_head_commit_id (repo ?w2))"
    unfolding head2 using assms by (simp add: in_sync_def last_commit_id_def)
  define w3 where "w3 = logger_log InfoPullNoChanges
                          (snd (create_sync_log ACTION_PULL (get_head_commit_id (repo ?w2)) ?w2))"
  have p: "pull env depth ?w2 = (Inr (), w3)"
    unfolding w3_def by (rule pull_noop [OF wm2])
  have db3: "db w3 = (db w)\<lparr>sync_logs := sync_logs (db w) @ [?log]\<rparr>"
    unfolding w3_def head2 by (simp add: create_sync_log_world)
  have repo3: "repo w3 = Repository_pull (repo w)"
    unfolding w3_def by (simp add: create_sync_log_world)
  have "submissions (db w3) = submissions (db w)" "resources (db w3) = resources (db w)"
    unfolding db3 by simp_all
  then have "pushed_submissions (db w3) (map sub_id (current_submissions (db w3))) =
             pushed_submissions (db w) (map sub_id (current_submissions (db w)))"
    by (rule pushed_current_cong)
  with assms have "pushed_submissions (db w3) (map sub_id (current_submissions (db w3))) = []"
    by (simp add: in_sync_def)
  from push_with_nothing_to_push [OF this, of env]
  have push3: "db (snd (push env w3)) = db w3" "repo (snd (push env w3)) = repo w3"
    by blast+
  obtain r w4 where q: "push env w3 = (r, w4)"
    by (cases "push env w3")
  have w4: "db w4 = db w3" "repo w4 = repo w3"
    using push3 q by simp_all
  have "sync env depth w =
          (case r of Inl e \<Rightarrow> (Inl e, w4) | Inr u \<Rightarrow> (Inr (), logger_log InfoFinished w4))"
    using p q by (simp add: sync_def Let_def split: sum.splits)
  then have "db (snd (sync env depth w)) = db w3 \<and> repo (snd (sync env depth w)) = repo w3"
    using w4 by (cases r) simp_all
  then show ?thesis
    by (simp add: db3 repo3 Repository_pull_def)
qed

text \<open>
  Claim C2. A first sync returns without an exception and leaves the world \<open>w1\<close>; every
  commit id is a non-empty string; the resource catalog does not write the SyncLog
  table; and the logs that exist at the start are older than the clock. Then a second
  sync, started in \<open>w1\<close> with nothing changed in between, whether it returns or raises,
  leaves a datastore that is the one of \<open>w1\<close> with one more SyncLog entry, of action
  PULL: no Translation is updated, no submission is touched, the SyncLog entries of
  action PUSH are those of \<open>w1\<close>, and the only operation on the repository is the
  \<^verbatim>\<open>repo.pull()\<close> of the sync itself (no commit, no push).
\<close>

theorem C2_second_sync_changes_nothing:
  assumes "sync env depth w = (Inr (), w1)"
    and "remote_head (repo w) \<noteq> []"
    and "\<forall>r wr m. new_commit_id env r wr m \<noteq> []"
    and "leaves_log_alone env"
    and "\<forall>l \<in> set (sync_logs (db w)). time l < clock w"
  shows "db (snd (sync env depth w1)) =
           (db w1)\<lparr>sync_logs := sync_logs (db w1) @
              [\<lparr>log_id = fresh_log_id (sync_logs (db w1)), action = ACTION_PULL,
                commit_id = head_commit_id (repo w1), time = clock w1\<rparr>]\<rparr>
       \<and> segment_translations (db (snd (sync env depth w1))) = segment_translations (db w1)
       \<and> submissions (db (snd (sync env depth w1))) = submissions (db w1)
       \<and> filter (\<lambda>l. action l = ACTION_PUSH) (sync_logs (db (snd (sync env depth w1))))
           = filter (\<lambda>l. action l = ACTION_PUSH) (sync_logs (db w1))
       \<and> ops (repo (snd (sync env depth w1))) = ops (repo w1) @ [OpPull]"
proof -
  have "in_sync w1"
    using assms by (rule first_sync_in_sync)
  from sync_when_in_sync [OF this, of env depth] show ?thesis by simp
qed

theorem C2_witness:
  "fst (sync (example_env\<lparr>get_changed_files := (\<lambda>r a b. [hd example_changed_files])\<rparr>) (Suc 0)
          example_world) = Inr ()
   \<and> remote_head (repo example_world) \<noteq> []
   \<and> leaves_log_alone (example_env\<lparr>get_changed_files := (\<lambda>r a b. [hd example_changed_files])\<rparr>)
   \<and> map action (sync_logs (db (snd (sync
           (example_env\<lparr>get_changed_files := (\<lambda>r a b. [hd example_changed_files])\<rparr>) (Suc 0)
           example_world)))) = [ACTION_PULL, ACTION_PUSH]
   \<and> segment_translations (db (snd (sync
           (example_env\<lparr>get_changed_files := (\<lambda>r a b. [hd example_changed_files])\<rparr>) (Suc 0)
           (snd (sync (example_env\<lparr>get_changed_files := (\<lambda>r a b. [hd example_changed_files])\<rparr>)
                   (Suc 0) example_world)))))
       = segment_translations (db (snd (sync
           (example_env\<lparr>get_changed_files := (\<lambda>r a b. [hd example_changed_files])\<rparr>) (Suc 0)
           example_world)))
   \<and> filter (\<lambda>l. action l = ACTION_PUSH) (sync_logs (db (snd (sync
           (example_env\<lparr>get_changed_files := (\<lambda>r a b. [hd example_changed_files])\<rparr>) (Suc 0)
           (snd (sync (example_env\<lparr>get_changed_files := (\<lambda>r a b. [hd example_changed_files])\<rparr>)
                   (Suc 0) example_world))))))
       = filter (\<lambda>l. action l = ACTION_PUSH) (sync_logs (db (snd (sync
           (example_env\<lparr>get_changed_files := (\<lambda>r a b. [hd example_changed_files])\<rparr>) (Suc 0)
           example_world))))"
proof -
  let ?env = "example_env\<lparr>get_changed_files := (\<lambda>r a b. [hd example_changed_files])\<rparr>"
  let ?w1 = "snd (sync ?env (Suc 0) example_world)"
  have ok: "fst (sync ?env (Suc 0) example_world) = Inr ()"
    by (simp add: sync_def example_defs pull_defs Let_def Repository_pull_def
          push_def push_body_def current_submissions_def is_current_def update_po_def
          merge_current_metadata_def read_file_def split: sum.splits)
  then have h1: "sync ?env (Suc 0) example_world = (Inr (), ?w1)"
    by (metis prod.collapse)
  have h2: "remote_head (repo example_world) \<noteq> []"
    by (simp add: example_defs)
  have h3: "\<forall>r wr m. new_commit_id ?env r wr m \<noteq> []"
    by (simp add: example_env_def)
  have h4: "leaves_log_alone ?env"
    by (simp add: leaves_log_alone_def example_env_def)
  have h5: "\<forall>l \<in> set (sync_logs (db example_world)). time l < clock example_world"
    by (simp add: example_defs)
  have logs: "map action (sync_logs (db ?w1)) = [ACTION_PULL, ACTION_PUSH]"
    by (simp add: sync_def example_defs pull_defs Let_def Repository_pull_def
          push_def push_body_def current_submissions_def is_current_def update_po_def
          merge_current_metadata_def read_file_def write_file_def write_config_def
          copy_unmanaged_files_def new_writer_def finalize_push_def pushed_submissions_def
          is_pushed_submission_def update_pushed_submissions_def save_commit_id_def
          writer_commit_def Repository_push_def)
  from C2_second_sync_changes_nothing [OF h1 h2 h3 h4 h5]
  show ?thesis using ok h2 h4 logs by simp
qed

end
